theory Spec2Isabelle
  imports Complex_Main
begin

section \<open>JavaScript numbers\<close>

text \<open>
  A JavaScript number is an IEEE 754 double. The model writes numbers as reals, and a real
  is read as the double nearest to it: \<open>double x\<close> rounds \<open>x\<close> to 53 significant bits
  (to multiples of \<open>2^-1074\<close> below the normal range), ties to the even neighbour, so a
  literal such as \<open>0.7\<close> stands for the double that the source's literal denotes, and
  a double stands for itself. The operations of the source on numbers (the comparisons,
  the sum \<open>confidence + 0.1\<close>, the rolling average of the monitor) are taken on the
  doubles, and an arithmetic result is rounded again. The exponent is not bounded above:
  numbers beyond the largest double, where the source would see \<open>Infinity\<close>, and \<open>NaN\<close>
  have no counterpart here; no threshold and no confidence of the pipeline is one.
\<close>

definition round_even :: "real \<Rightarrow> int" where
  "round_even q =
     (let f = \<lfloor>q\<rfloor> in
      if q - of_int f < 1 / 2 then f
      else if q - of_int f > 1 / 2 then f + 1
      else if even f then f else f + 1)"

definition double :: "real \<Rightarrow> real" where
  "double x =
     (if x = 0 then 0
      else let k = max (\<lfloor>log 2 \<bar>x\<bar>\<rfloor> - 52) (- 1074)
           in of_int (round_even (x / 2 powr of_int k)) * 2 powr of_int k)"

definition double_add :: "real \<Rightarrow> real \<Rightarrow> real" where
  "double_add x y = double (double x + double y)"

definition double_sub :: "real \<Rightarrow> real \<Rightarrow> real" where
  "double_sub x y = double (double x - double y)"

definition double_mul :: "real \<Rightarrow> real \<Rightarrow> real" where
  "double_mul x y = double (double x * double y)"

section \<open>JavaScript values\<close>

text \<open>
  A value as \<open>JSON.parse\<close> returns it. An object is the list of its own properties (a
  property read takes the first entry of a name). \<open>JSON.parse\<close> itself is the platform's:
  the parameter \<open>parse\<close> of the functions that read a reply, \<open>None\<close> where it throws a
  \<open>SyntaxError\<close>.
\<close>

datatype json =
    JNull
  | JBool bool
  | JNumber real
  | JString string
  | JArray "json list"
  | JObject "(string \<times> json) list"

text \<open>\<open>v.name\<close> for a value that is not \<open>null\<close>; \<open>None\<close> is \<open>undefined\<close>. None of the names
  read by the service is a property of the prototypes of arrays, strings, numbers or
  booleans.\<close>

fun js_get :: "json \<Rightarrow> string \<Rightarrow> json option" where
  "js_get (JObject props) name = map_of props name"
| "js_get v name = None"

fun js_truthy :: "json \<Rightarrow> bool" where
  "js_truthy JNull = False"
| "js_truthy (JBool b) = b"
| "js_truthy (JNumber n) = (n \<noteq> 0)"
| "js_truthy (JString s) = (s \<noteq> [])"
| "js_truthy (JArray xs) = True"
| "js_truthy (JObject props) = True"

text \<open>\<open>typeof p === 'object' && p !== null\<close>: true of objects and of arrays.\<close>

fun js_is_object :: "json \<Rightarrow> bool" where
  "js_is_object (JArray xs) = True"
| "js_is_object (JObject props) = True"
| "js_is_object v = False"

text \<open>\<open>Array.prototype.join\<close> on strings.\<close>

fun join :: "string \<Rightarrow> string list \<Rightarrow> string" where
  "join sep [] = []"
| "join sep [x] = x"
| "join sep (x # y # ys) = x @ sep @ join sep (y # ys)"

text \<open>
  \<open>String(v)\<close>, and likewise the conversion of \<open>v\<close> in a template literal and in \<open>v + text\<close>.
  The text of a number is the platform's (\<open>num\<close>). An array joins the texts
  of its elements with commas, \<open>null\<close> elements giving the empty text. An object gives
  \<open>[object Object]\<close>, unless it has a property \<open>toString\<close> of its own: a parsed value is
  never a function, so the conversion finds nothing to call and throws a \<open>TypeError\<close>
  (\<open>None\<close>), with the message \<open>cannot_convert\<close>.
\<close>

fun js_String :: "(real \<Rightarrow> string) \<Rightarrow> json \<Rightarrow> string option" where
  "js_String num JNull = Some ''null''"
| "js_String num (JBool b) = Some (if b then ''true'' else ''false'')"
| "js_String num (JNumber n) = Some (num n)"
| "js_String num (JString s) = Some s"
| "js_String num (JArray xs) =
     map_option (join '','')
       (those (map (\<lambda>x. if x = JNull then Some [] else js_String num x) xs))"
| "js_String num (JObject props) =
     (if map_of props ''toString'' = None then Some ''[object Object]'' else None)"

text \<open>
  Errors: an \<open>AxiosError\<close> with its \<open>code\<close>, the status of its \<open>response\<close> (if it has
  one) and its message; an \<open>Error\<close> or a \<open>TypeError\<close> with its message; \<open>Thrown s\<close> is a
  thrown value that is not an \<open>Error\<close>, with its text \<open>String(error)\<close>.
\<close>

datatype js_error =
    AxiosError "string option" "nat option" string
  | Error string
  | TypeError string
  | Thrown string

definition cannot_convert :: string where
  "cannot_convert = ''Cannot convert object to primitive value''"

section \<open>Data model (types.ts)\<close>

text \<open>
  The string-literal unions of the source are datatypes, its interfaces are records.
  A field whose name is taken already (by HOL or by an earlier record) carries a suffix.
  The field \<open>reasoning\<close> of an analysis is declared a string, but the analysis parsed from
  a reply holds there whatever truthy value the reply has, so the field is a JavaScript
  value here: \<open>JString s\<close> for a string.
\<close>

datatype ThreatLevel = safe | suspicious | dangerous

datatype PatternType = rule_bypass | secret_extraction | command_injection | role_manipulation

datatype Severity = low | medium | high

datatype Action = allow | block | warn

datatype Source = chat | command

datatype EventType = ev_analysis | ev_block | ev_allow | ev_override | ev_error

record ThreatPattern =
  type :: PatternType
  pattern :: string
  severity :: Severity
  description :: string

record SecurityAnalysis =
  threatLevel :: ThreatLevel
  confidence :: real
  detectedPatterns :: "ThreatPattern list"
  reasoning :: json
  processingTime :: int

record PromptMetadata =
  participantId :: "string option"
  commandId :: "string option"
  sessionId :: "string option"

record InterceptedPrompt =
  id_prompt :: string
  content :: string
  timestamp :: int
  source :: Source
  metadata :: PromptMetadata

record SecurityDecision =
  action :: Action
  reason :: string
  originalPrompt :: InterceptedPrompt
  analysis :: SecurityAnalysis
  userOverride :: "bool option"

record SecurityEvent =
  id_event :: string
  timestamp_event :: int
  eventType :: EventType
  promptHash :: string
  threatLevel_event :: ThreatLevel
  confidence_event :: real
  decision :: Action
  userOverride_event :: "bool option"
  processingTime_event :: int

fun PatternType_name :: "PatternType \<Rightarrow> string" where
  "PatternType_name rule_bypass = ''rule_bypass''"
| "PatternType_name secret_extraction = ''secret_extraction''"
| "PatternType_name command_injection = ''command_injection''"
| "PatternType_name role_manipulation = ''role_manipulation''"

section \<open>Sensitivity thresholds (ConfigurationService.ts)\<close>




section \<open>Gatekeeper (the decision engine)\<close>

record GatekeeperConfig =
  blockThreshold :: real
  warnThreshold :: real
  enableUserOverride :: bool
  enableAuditLog :: bool


text \<open>\<open>[...new Set(xs)]\<close>: the elements of \<open>xs\<close> in the order of their first occurrence.\<close>

fun set_order :: "'a list \<Rightarrow> 'a list \<Rightarrow> 'a list" where
  "set_order seen [] = rev seen"
| "set_order seen (x # xs) = (if x \<in> set seen then set_order seen xs else set_order (x # seen) xs)"

definition new_Set :: "'a list \<Rightarrow> 'a list" where
  "new_Set xs = set_order [] xs"

text \<open>
  The reason of a blocked or warned request is a template literal that ends in
  \<open>${reasoning}\<close>: the conversion of the reasoning to text throws a \<open>TypeError\<close> (\<open>None\<close>)
  for a value that cannot be converted.
\<close>

definition buildBlockReason ::
  "(real \<Rightarrow> string) \<Rightarrow> json \<Rightarrow> ThreatPattern list \<Rightarrow> string option" where
  "buildBlockReason num reasoning' patterns =
     (let patternTypes = new_Set (map type patterns);
          patternSummary =
            (if length patternTypes > 0
             then ''Detected patterns: '' @ join '', '' (map PatternType_name patternTypes) @ ''. ''
             else '''')
      in map_option (\<lambda>text. patternSummary @ text) (js_String num reasoning'))"

definition buildWarnReason ::
  "(real \<Rightarrow> string) \<Rightarrow> json \<Rightarrow> ThreatPattern list \<Rightarrow> string option" where
  "buildWarnReason num reasoning' patterns =
     (let patternTypes = new_Set (map type patterns);
          patternSummary =
            (if length patternTypes > 0
             then ''Suspicious patterns: '' @ join '', '' (map PatternType_name patternTypes) @ ''. ''
             else '''')
      in map_option (\<lambda>text. patternSummary @ text) (js_String num reasoning'))"

text \<open>\<open>makeDecision\<close>: the decision, or the \<open>TypeError\<close> thrown while the reason is built.
  The comparisons are comparisons of doubles.\<close>

definition makeDecision ::
  "(real \<Rightarrow> string) \<Rightarrow> GatekeeperConfig \<Rightarrow> SecurityAnalysis \<Rightarrow> InterceptedPrompt
     \<Rightarrow> js_error + SecurityDecision" where
  "makeDecision num cfg analysis' prompt =
     (if threatLevel analysis' = dangerous
         \<and> double (confidence analysis') \<ge> double (blockThreshold cfg) then
        (case buildBlockReason num (reasoning analysis') (detectedPatterns analysis') of
           None \<Rightarrow> Inl (TypeError cannot_convert)
         | Some text \<Rightarrow>
             Inr \<lparr>action = block, reason = text,
                  originalPrompt = prompt, analysis = analysis', userOverride = None\<rparr>)
      else if threatLevel analysis' = dangerous
              \<or> (threatLevel analysis' = suspicious
                  \<and> double (confidence analysis') \<ge> double (warnThreshold cfg)) then
        (case buildWarnReason num (reasoning analysis') (detectedPatterns analysis') of
           None \<Rightarrow> Inl (TypeError cannot_convert)
         | Some text \<Rightarrow>
             Inr \<lparr>action = warn, reason = text,
                  originalPrompt = prompt, analysis = analysis', userOverride = None\<rparr>)
      else
        Inr \<lparr>action = allow,
             reason = ''Prompt passed security analysis'',
             originalPrompt = prompt, analysis = analysis', userOverride = None\<rparr>)"

subsection \<open>Audit log\<close>

text \<open>
  What the output channel holds: one line for each logged event, or the detail view of a
  decision (\<open>showDecisionDetails\<close> clears the channel first). The text of the lines is not
  modelled.
\<close>

datatype channel_entry = Entry_event SecurityEvent | Entry_details SecurityDecision

text \<open>
  The state of a \<open>Gatekeeper\<close> object. \<open>localStorageService\<close> is \<open>None\<close> while no
  storage service is set; otherwise it holds the events handed to \<open>storeSecurityEvent\<close>,
  in order.
\<close>

record Gatekeeper =
  config :: GatekeeperConfig
  auditLog :: "SecurityEvent list"
  localStorageService :: "SecurityEvent list option"
  outputChannel :: "channel_entry list"

definition maxAuditLogSize :: nat where
  "maxAuditLogSize = 1000"

text \<open>\<open>xs.slice(-n)\<close> for a positive \<open>n\<close>: the last \<open>n\<close> elements.\<close>

definition slice_last :: "nat \<Rightarrow> 'a list \<Rightarrow> 'a list" where
  "slice_last n xs = drop (length xs - n) xs"

definition logSecurityEvent :: "Gatekeeper \<Rightarrow> SecurityEvent \<Rightarrow> Gatekeeper" where
  "logSecurityEvent gk event =
     (if \<not> enableAuditLog (config gk) then gk
      else
        let pushed = auditLog gk @ [event];
            rotated = (if length pushed > maxAuditLogSize
                       then slice_last maxAuditLogSize pushed else pushed)
        in gk\<lparr>auditLog := rotated,
               localStorageService := map_option (\<lambda>es. es @ [event]) (localStorageService gk),
               outputChannel := outputChannel gk @ [Entry_event event]\<rparr>)"

fun mapDecisionToEventType :: "Action \<Rightarrow> EventType" where
  "mapDecisionToEventType block = ev_block"
| "mapDecisionToEventType allow = ev_allow"
| "mapDecisionToEventType warn = ev_analysis"

definition showDecisionDetails :: "Gatekeeper \<Rightarrow> SecurityDecision \<Rightarrow> Gatekeeper" where
  "showDecisionDetails gk d = gk\<lparr>outputChannel := [Entry_details d]\<rparr>"

subsection \<open>User override\<close>

text \<open>
  What the platform supplies to one logged event: the identifier that \<open>generateEventId\<close>
  builds from the clock and a random number, and the time of \<open>new Date()\<close>. The SHA-256
  digest of \<open>hashPrompt\<close> is the parameter \<open>sha\<close> of the functions below.
\<close>

record Stamp =
  stamp_id :: string
  stamp_time :: int

text \<open>
  The user's answers: \<open>selection\<close> is the button chosen in the notification of a blocked or
  warned request, \<open>confirmation\<close> the button chosen in the modal confirmation dialog;
  \<open>None\<close> is a dismissed dialog (\<open>undefined\<close>).
\<close>

record UserInput =
  selection :: "string option"
  confirmation :: "string option"

definition handleUserOverride ::
  "(string \<Rightarrow> string) \<Rightarrow> Stamp \<Rightarrow> string option \<Rightarrow> Gatekeeper \<Rightarrow> SecurityDecision
     \<Rightarrow> SecurityDecision option \<times> Gatekeeper" where
  "handleUserOverride sha st confirmation' gk d =
     (if confirmation' = Some ''Yes, I understand the risks'' then
        let gk' = logSecurityEvent gk
              \<lparr>id_event = stamp_id st,
               timestamp_event = stamp_time st,
               eventType = ev_override,
               promptHash = sha (content (originalPrompt d)),
               threatLevel_event = threatLevel (analysis d),
               confidence_event = confidence (analysis d),
               decision = allow,
               userOverride_event = Some True,
               processingTime_event = processingTime (analysis d)\<rparr>;
            overriddenDecision =
              d\<lparr>action := allow, userOverride := Some True,
                reason := ''User override: '' @ reason d\<rparr>
        in (Some overriddenDecision, gk')
      else (None, gk))"

definition showBlockNotification ::
  "(string \<Rightarrow> string) \<Rightarrow> Stamp \<Rightarrow> UserInput \<Rightarrow> Gatekeeper \<Rightarrow> SecurityDecision \<Rightarrow> Gatekeeper" where
  "showBlockNotification sha st ui gk d =
     (if enableUserOverride (config gk) then
        (if selection ui = Some ''View Details'' then showDecisionDetails gk d
         else if selection ui = Some ''Override (Proceed Anyway)''
           then snd (handleUserOverride sha st (confirmation ui) gk d)
         else gk)
      else
        (if selection ui = Some ''View Details'' then showDecisionDetails gk d else gk))"

definition showWarnNotification :: "UserInput \<Rightarrow> Gatekeeper \<Rightarrow> SecurityDecision \<Rightarrow> Gatekeeper" where
  "showWarnNotification ui gk d =
     (if selection ui = Some ''View Details'' then showDecisionDetails gk d else gk)"

definition notifyUser ::
  "(string \<Rightarrow> string) \<Rightarrow> Stamp \<Rightarrow> UserInput \<Rightarrow> Gatekeeper \<Rightarrow> SecurityDecision \<Rightarrow> Gatekeeper" where
  "notifyUser sha st ui gk d =
     (case action d of
        block \<Rightarrow> showBlockNotification sha st ui gk d
      | warn \<Rightarrow> showWarnNotification ui gk d
      | allow \<Rightarrow> gk)"

text \<open>
  \<open>enforceSecurityPolicy\<close>: decide, log one event, notify. \<open>st1\<close> stamps the event of the
  decision, \<open>st2\<close> the event of an override made from the notification. An error thrown
  by \<open>makeDecision\<close> leaves the method before anything is logged. The decision returned
  is the one made by \<open>makeDecision\<close>: the result of \<open>handleUserOverride\<close> is dropped by
  \<open>showBlockNotification\<close>.
\<close>

definition enforceSecurityPolicy ::
  "(real \<Rightarrow> string) \<Rightarrow> (string \<Rightarrow> string) \<Rightarrow> Stamp \<Rightarrow> Stamp \<Rightarrow> UserInput \<Rightarrow> Gatekeeper
     \<Rightarrow> SecurityAnalysis \<Rightarrow> InterceptedPrompt \<Rightarrow> js_error + (SecurityDecision \<times> Gatekeeper)" where
  "enforceSecurityPolicy num sha st1 st2 ui gk analysis' prompt =
     (case makeDecision num (config gk) analysis' prompt of
        Inl e \<Rightarrow> Inl e
      | Inr d \<Rightarrow>
          let gk1 = logSecurityEvent gk
                \<lparr>id_event = stamp_id st1,
                 timestamp_event = stamp_time st1,
                 eventType = mapDecisionToEventType (action d),
                 promptHash = sha (content prompt),
                 threatLevel_event = threatLevel analysis',
                 confidence_event = confidence analysis',
                 decision = action d,
                 userOverride_event = None,
                 processingTime_event = processingTime analysis'\<rparr>;
              gk2 = notifyUser sha st2 ui gk1 d
          in Inr (d, gk2))"

subsection \<open>Decisions as objects\<close>

text \<open>
  A decision is an object, and the caller of \<open>handleUserOverride\<close> keeps a reference to the
  one it passed. The store holds the decision objects; a reference is an index into it, and
  the object literal \<open>{...decision, action: 'allow', ...}\<close> allocates a new cell at the end.
  A reference that names no object stands for a call with \<open>undefined\<close>, which fails on
  \<open>decision.analysis\<close>.
\<close>

type_synonym store = "SecurityDecision list"

definition deref :: "store \<Rightarrow> nat \<Rightarrow> SecurityDecision option" where
  "deref h r = (if r < length h then Some (h ! r) else None)"

definition handleUserOverride_ref ::
  "(string \<Rightarrow> string) \<Rightarrow> Stamp \<Rightarrow> string option \<Rightarrow> Gatekeeper \<Rightarrow> store \<Rightarrow> nat
     \<Rightarrow> js_error + (nat option \<times> Gatekeeper \<times> store)" where
  "handleUserOverride_ref sha st confirmation' gk h r =
     (case deref h r of
        None \<Rightarrow> Inl (TypeError ''Cannot read properties of undefined'')
      | Some d \<Rightarrow>
          (case handleUserOverride sha st confirmation' gk d of
             (None, gk') \<Rightarrow> Inr (None, gk', h)
           | (Some d', gk') \<Rightarrow> Inr (Some (length h), gk', h @ [d'])))"

section \<open>SecurityService: local pattern detection\<close>

text \<open>
  The rule sets are lists of regular-expression literals. A literal is named here by the
  rule set it belongs to and its position there, counted from 0 in the order of the source
  (\<open>Rx rule_bypass 9\<close> is \<open>/jailbreak/i\<close>). The regular-expression engine is the platform's:
  the functions below take \<open>content.match(regex)\<close> as a parameter \<open>rx\<close>, which gives the
  matched text \<open>match[0]\<close>, or \<open>None\<close> where the engine returns \<open>null\<close>.
\<close>

datatype regexp = Rx PatternType nat

type_synonym matcher = "regexp \<Rightarrow> string \<Rightarrow> string option"

record ThreatPatternDefinition =
  type_def :: PatternType
  patterns :: "regexp list"
  severity_def :: Severity
  description_def :: string

record LocalDetectionResult =
  hasThreats :: bool
  detectedPatterns_local :: "ThreatPattern list"
  suggestedThreatLevel :: ThreatLevel

definition RULE_BYPASS_PATTERNS :: ThreatPatternDefinition where
  "RULE_BYPASS_PATTERNS =
     \<lparr>type_def = rule_bypass,
      patterns = map (Rx rule_bypass) [0..<17],
      severity_def = high,
      description_def = ''Attempt to bypass or ignore system rules and instructions''\<rparr>"

definition SECRET_EXTRACTION_PATTERNS :: ThreatPatternDefinition where
  "SECRET_EXTRACTION_PATTERNS =
     \<lparr>type_def = secret_extraction,
      patterns = map (Rx secret_extraction) [0..<20],
      severity_def = high,
      description_def = ''Attempt to extract system secrets, API keys, or sensitive configuration''\<rparr>"

definition COMMAND_INJECTION_PATTERNS :: ThreatPatternDefinition where
  "COMMAND_INJECTION_PATTERNS =
     \<lparr>type_def = command_injection,
      patterns = map (Rx command_injection) [0..<27],
      severity_def = high,
      description_def = ''Attempt to execute unauthorized system commands or inject malicious code''\<rparr>"

definition ROLE_MANIPULATION_PATTERNS :: ThreatPatternDefinition where
  "ROLE_MANIPULATION_PATTERNS =
     \<lparr>type_def = role_manipulation,
      patterns = map (Rx role_manipulation) [0..<19],
      severity_def = medium,
      description_def = ''Attempt to manipulate AI role or behavior through persona injection''\<rparr>"

definition ALL_THREAT_PATTERNS :: "ThreatPatternDefinition list" where
  "ALL_THREAT_PATTERNS =
     [RULE_BYPASS_PATTERNS, SECRET_EXTRACTION_PATTERNS, COMMAND_INJECTION_PATTERNS,
      ROLE_MANIPULATION_PATTERNS]"

text \<open>The inner loop: the first regular expression of the rule set that matches, if any
  (the loop breaks there).\<close>

fun first_match :: "matcher \<Rightarrow> string \<Rightarrow> regexp list \<Rightarrow> string option" where
  "first_match rx content' [] = None"
| "first_match rx content' (r # rs) =
     (case rx r content' of Some m \<Rightarrow> Some m | None \<Rightarrow> first_match rx content' rs)"

text \<open>The outer loop, over the rule sets, with the two variables it updates.\<close>

fun detect_loop ::
  "matcher \<Rightarrow> string \<Rightarrow> ThreatPatternDefinition list \<Rightarrow> ThreatPattern list \<times> Severity
     \<Rightarrow> ThreatPattern list \<times> Severity" where
  "detect_loop rx content' [] (detected, maxSeverity) = (detected, maxSeverity)"
| "detect_loop rx content' (patternDef # defs) (detected, maxSeverity) =
     (case first_match rx content' (patterns patternDef) of
        None \<Rightarrow> detect_loop rx content' defs (detected, maxSeverity)
      | Some m \<Rightarrow>
          detect_loop rx content' defs
            (detected @ [\<lparr>type = type_def patternDef, pattern = m,
                           severity = severity_def patternDef,
                           description = description_def patternDef\<rparr>],
             if severity_def patternDef = high then high
             else if severity_def patternDef = medium \<and> maxSeverity \<noteq> high then medium
             else maxSeverity))"

definition classifyThreatLevel :: "ThreatPattern list \<Rightarrow> Severity \<Rightarrow> ThreatLevel" where
  "classifyThreatLevel pats maxSeverity =
     (if length pats = 0 then safe
      else
        let patternTypes = new_Set (map type pats);
            highSeverityCount = length (filter (\<lambda>p. severity p = high) pats)
        in if highSeverityCount \<ge> 2 \<or> length patternTypes \<ge> 3 then dangerous
           else if maxSeverity = high then dangerous
           else if maxSeverity = medium \<or> length pats \<ge> 2 then suspicious
           else suspicious)"

text \<open>\<open>detectThreatPatterns\<close>, over any list of rule sets; the service runs it on
  \<open>ALL_THREAT_PATTERNS\<close>.\<close>

definition detectThreatPatterns_on ::
  "ThreatPatternDefinition list \<Rightarrow> matcher \<Rightarrow> string \<Rightarrow> LocalDetectionResult" where
  "detectThreatPatterns_on defs rx content' =
     (case detect_loop rx content' defs ([], low) of
        (detected, maxSeverity) \<Rightarrow>
          \<lparr>hasThreats = length detected > 0,
           detectedPatterns_local = detected,
           suggestedThreatLevel = classifyThreatLevel detected maxSeverity\<rparr>)"

definition detectThreatPatterns :: "matcher \<Rightarrow> string \<Rightarrow> LocalDetectionResult" where
  "detectThreatPatterns = detectThreatPatterns_on ALL_THREAT_PATTERNS"

section \<open>SecurityService: merging local and remote results\<close>

fun severityOrder :: "ThreatLevel \<Rightarrow> nat" where
  "severityOrder safe = 0"
| "severityOrder suspicious = 1"
| "severityOrder dangerous = 2"

definition getMoreSevereThreatLevel :: "ThreatLevel \<Rightarrow> ThreatLevel \<Rightarrow> ThreatLevel" where
  "getMoreSevereThreatLevel level1 level2 =
     (if severityOrder level1 \<ge> severityOrder level2 then level1 else level2)"

text \<open>The loop that adds the local patterns whose type is not among \<open>existingTypes\<close> yet.\<close>

fun combine_loop ::
  "ThreatPattern list \<Rightarrow> ThreatPattern list \<times> PatternType list
     \<Rightarrow> ThreatPattern list \<times> PatternType list" where
  "combine_loop [] (combined, existingTypes) = (combined, existingTypes)"
| "combine_loop (p # ps) (combined, existingTypes) =
     (if type p \<notin> set existingTypes
      then combine_loop ps (combined @ [p], existingTypes @ [type p])
      else combine_loop ps (combined, existingTypes))"

text \<open>
  \<open>mergeAnalysisResults\<close>. The sum \<open>confidence + 0.1\<close> is the sum of doubles. When local
  detection found threats, \<open>reasoning += ...\<close> converts the reasoning of the reply to text,
  and throws a \<open>TypeError\<close> for a value that cannot be converted; the patterns, the level
  and the confidence have been computed by then.
\<close>

definition mergeAnalysisResults ::
  "(real \<Rightarrow> string) \<Rightarrow> LocalDetectionResult \<Rightarrow> SecurityAnalysis \<Rightarrow> int
     \<Rightarrow> js_error + SecurityAnalysis" where
  "mergeAnalysisResults num localDetection slmAnalysis processingTime' =
     (let combinedPatterns =
            fst (combine_loop (detectedPatterns_local localDetection)
                   (detectedPatterns slmAnalysis, new_Set (map type (detectedPatterns slmAnalysis))));
          threatLevel' =
            getMoreSevereThreatLevel (suggestedThreatLevel localDetection) (threatLevel slmAnalysis);
          confidence' =
            (if hasThreats localDetection \<and> threatLevel slmAnalysis \<noteq> safe
               then min 1.0 (double_add (confidence slmAnalysis) 0.1)
             else if hasThreats localDetection \<and> threatLevel slmAnalysis = safe
               then 0.6
             else confidence slmAnalysis);
          appended =
            (if hasThreats localDetection
             then map_option
                    (\<lambda>text. JString (text @ '' Local detection also identified: ''
                         @ join '', '' (map PatternType_name
                                          (new_Set (map type (detectedPatterns_local localDetection))))
                         @ ''.''))
                    (js_String num (reasoning slmAnalysis))
             else Some (reasoning slmAnalysis))
      in case appended of
           None \<Rightarrow> Inl (TypeError cannot_convert)
         | Some reasoning' \<Rightarrow>
             Inr \<lparr>threatLevel = threatLevel', confidence = confidence',
                  detectedPatterns = combinedPatterns, reasoning = reasoning',
                  processingTime = processingTime'\<rparr>)"

section \<open>SecurityService: the reply of the remote classifier\<close>

text \<open>\<open>String(x || '')\<close> for a property read \<open>x\<close>.\<close>

definition String_or_empty :: "(real \<Rightarrow> string) \<Rightarrow> json option \<Rightarrow> string option" where
  "String_or_empty num x =
     (case x of
        None \<Rightarrow> Some []
      | Some v \<Rightarrow> if js_truthy v then js_String num v else Some [])"

definition normalizeThreatlevel :: "json option \<Rightarrow> ThreatLevel" where
  "normalizeThreatlevel level =
     (if level = Some (JString ''safe'') then safe
      else if level = Some (JString ''suspicious'') then suspicious
      else if level = Some (JString ''dangerous'') then dangerous
      else suspicious)"

definition normalizeConfidence :: "json option \<Rightarrow> real" where
  "normalizeConfidence c =
     (case c of
        Some (JNumber n) \<Rightarrow> if double n \<ge> 0 \<and> double n \<le> 1 then double n else 0.5
      | _ \<Rightarrow> 0.5)"

definition normalizePatternType :: "json option \<Rightarrow> PatternType" where
  "normalizePatternType t =
     (if t = Some (JString ''rule_bypass'') then rule_bypass
      else if t = Some (JString ''secret_extraction'') then secret_extraction
      else if t = Some (JString ''command_injection'') then command_injection
      else if t = Some (JString ''role_manipulation'') then role_manipulation
      else rule_bypass)"

definition normalizeSeverity :: "json option \<Rightarrow> Severity" where
  "normalizeSeverity v =
     (if v = Some (JString ''low'') then low
      else if v = Some (JString ''medium'') then medium
      else if v = Some (JString ''high'') then high
      else medium)"

text \<open>The function mapped over the entries that pass the filter; \<open>None\<close> where one of the two
  \<open>String\<close> conversions throws.\<close>

definition normalizePattern :: "(real \<Rightarrow> string) \<Rightarrow> json \<Rightarrow> ThreatPattern option" where
  "normalizePattern num p =
     (case String_or_empty num (js_get p ''pattern'') of
        None \<Rightarrow> None
      | Some pat \<Rightarrow>
          (case String_or_empty num (js_get p ''description'') of
             None \<Rightarrow> None
           | Some descr \<Rightarrow>
               Some \<lparr>type = normalizePatternType (js_get p ''type''),
                     pattern = pat,
                     severity = normalizeSeverity (js_get p ''severity''),
                     description = descr\<rparr>))"

definition normalizePatterns :: "(real \<Rightarrow> string) \<Rightarrow> json option \<Rightarrow> ThreatPattern list option" where
  "normalizePatterns num pats =
     (case pats of
        Some (JArray ps) \<Rightarrow> those (map (normalizePattern num) (filter js_is_object ps))
      | _ \<Rightarrow> Some [])"

text \<open>\<open>String.prototype.trim\<close>, on strings of 8-bit character codes: the white space and
  line terminators of that range.\<close>

definition js_whitespace :: "char \<Rightarrow> bool" where
  "js_whitespace c = (c \<in> set [CHR 0x09, CHR 0x0A, CHR 0x0B, CHR 0x0C, CHR 0x0D, CHR 0x20, CHR 0xA0])"

definition trim :: "string \<Rightarrow> string" where
  "trim s = rev (dropWhile js_whitespace (rev (dropWhile js_whitespace s)))"

definition startsWith :: "string \<Rightarrow> string \<Rightarrow> bool" where
  "startsWith s p = (take (length p) s = p)"

definition endsWith :: "string \<Rightarrow> string \<Rightarrow> bool" where
  "endsWith s p = (length p \<le> length s \<and> drop (length s - length p) s = p)"

text \<open>The text handed to \<open>JSON.parse\<close>: the reply without a Markdown code fence around it.\<close>

definition strip_fence :: "string \<Rightarrow> string" where
  "strip_fence content' =
     (let j0 = trim content';
          j1 = (if startsWith j0 ''```json'' then drop 7 j0 else j0);
          j2 = (if startsWith j1 ''```'' then drop 3 j1 else j1);
          j3 = (if endsWith j2 ''```'' then take (length j2 - 3) j2 else j2)
      in trim j3)"

definition parse_failure :: "int \<Rightarrow> SecurityAnalysis" where
  "parse_failure processingTime' =
     \<lparr>threatLevel = suspicious, confidence = 0.5, detectedPatterns = [],
      reasoning = JString ''Failed to parse security analysis response'',
      processingTime = processingTime'\<rparr>"

text \<open>
  \<open>parsed.reasoning || 'No reasoning provided'\<close>: a truthy value is kept as it is, whatever
  its type.
\<close>

definition reasoning_of :: "json option \<Rightarrow> json" where
  "reasoning_of r =
     (case r of
        None \<Rightarrow> JString ''No reasoning provided''
      | Some v \<Rightarrow> if js_truthy v then v else JString ''No reasoning provided'')"

text \<open>
  \<open>parseAnalysisResponse\<close>. The \<open>catch\<close> block is reached when \<open>JSON.parse\<close> throws, when
  the parsed value is \<open>null\<close> (the first property read throws) and when a \<open>String\<close>
  conversion in \<open>normalizePatterns\<close> throws.
\<close>

definition parseAnalysisResponse ::
  "(string \<Rightarrow> json option) \<Rightarrow> (real \<Rightarrow> string) \<Rightarrow> string \<Rightarrow> int \<Rightarrow> SecurityAnalysis" where
  "parseAnalysisResponse parse num content' processingTime' =
     (case parse (strip_fence content') of
        None \<Rightarrow> parse_failure processingTime'
      | Some parsed \<Rightarrow>
          if parsed = JNull then parse_failure processingTime'
          else
            (case normalizePatterns num (js_get parsed ''detectedPatterns'') of
               None \<Rightarrow> parse_failure processingTime'
             | Some detected \<Rightarrow>
                 \<lparr>threatLevel = normalizeThreatlevel (js_get parsed ''threatLevel''),
                  confidence = normalizeConfidence (js_get parsed ''confidence''),
                  detectedPatterns = detected,
                  reasoning = reasoning_of (js_get parsed ''reasoning''),
                  processingTime = processingTime'\<rparr>))"

section \<open>SecurityService: analyzePrompt\<close>

text \<open>The decimal text of a number, for \<open>${error.response.status}\<close>.\<close>

fun show_nat :: "nat \<Rightarrow> string" where
  "show_nat n =
     (if n < 10 then [char_of (48 + n)]
      else show_nat (n div 10) @ [char_of (48 + n mod 10)])"

definition handleAnalysisError :: "js_error \<Rightarrow> int \<Rightarrow> SecurityAnalysis" where
  "handleAnalysisError err processingTime' =
     (let reasoning' =
        (case err of
           AxiosError code status msg \<Rightarrow>
             if code = Some ''ECONNREFUSED'' then ''Ollama service is not running or unreachable''
             else if code = Some ''ETIMEDOUT'' \<or> code = Some ''ECONNABORTED''
               then ''Security analysis timed out''
             else (case status of
                     Some n \<Rightarrow> ''Ollama API error: '' @ show_nat n
                   | None \<Rightarrow> ''Network error: '' @ msg)
         | Error msg \<Rightarrow> msg
         | TypeError msg \<Rightarrow> msg
         | Thrown s \<Rightarrow> ''Security analysis failed'')
      in \<lparr>threatLevel = suspicious, confidence = 0, detectedPatterns = [],
          reasoning = JString reasoning', processingTime = processingTime'\<rparr>)"

text \<open>
  How the request to the classifier ends: it fails with an error (the connection is
  refused, the request times out, the status is not 2xx, the body has no \<open>choices\<close>), or
  it gives the \<open>content\<close> of the first choice, \<open>None\<close> where that is \<open>undefined\<close>.
\<close>

datatype remote_result = Remote_failed js_error | Remote_content "string option"

text \<open>The platform's functions that the service uses.\<close>

record Platform =
  regex_match :: matcher
  JSON_parse :: "string \<Rightarrow> json option"
  Number_text :: "real \<Rightarrow> string"
  sha256 :: "string \<Rightarrow> string"

text \<open>
  \<open>analyzePrompt\<close>. \<open>t_try\<close> is the time elapsed when the reply arrives, \<open>t_catch\<close> the
  time elapsed when the \<open>catch\<close> block runs. Inside the \<open>try\<close> block the request, the
  check for an empty reply and \<open>mergeAnalysisResults\<close> can throw; \<open>parseAnalysisResponse\<close>
  does not.
\<close>

definition analyzePrompt ::
  "Platform \<Rightarrow> remote_result \<Rightarrow> int \<Rightarrow> int \<Rightarrow> InterceptedPrompt \<Rightarrow> SecurityAnalysis" where
  "analyzePrompt pf remote t_try t_catch prompt =
     (let localDetection = detectThreatPatterns (regex_match pf) (content prompt);
          attempt =
            (case remote of
               Remote_failed e \<Rightarrow> Inl e
             | Remote_content None \<Rightarrow> Inl (Error ''Empty response from Ollama'')
             | Remote_content (Some c) \<Rightarrow>
                 if c = [] then Inl (Error ''Empty response from Ollama'')
                 else mergeAnalysisResults (Number_text pf) localDetection
                        (parseAnalysisResponse (JSON_parse pf) (Number_text pf) c t_try)
                        t_try)
      in case attempt of
           Inr merged \<Rightarrow> merged
         | Inl e \<Rightarrow>
             if hasThreats localDetection then
               \<lparr>threatLevel = suggestedThreatLevel localDetection,
                confidence = 0.7,
                detectedPatterns = detectedPatterns_local localDetection,
                reasoning = JString ''Local pattern detection identified threats (SLM unavailable)'',
                processingTime = t_catch\<rparr>
             else handleAnalysisError e t_catch)"

section \<open>The extension: healthy and degraded mode\<close>

text \<open>
  The state of the extension module after activation: the flag \<open>isDegradedMode\<close>, the
  gatekeeper, and what has been handed to \<open>storeAnalysisResult\<close>. The status shown to the
  user is not part of the state, but the text of the status is built from the reasoning
  and can throw. The notification and storage collaborators are taken not to fail, so
  the \<open>catch\<close> block of \<open>handlePromptAnalysis\<close> is reached only by a \<open>TypeError\<close> of
  \<open>makeDecision\<close> or of \<open>updateStatusFromAnalysis\<close>: \<open>analyzePrompt\<close> catches the errors
  of the remote call itself.
\<close>

record Extension =
  isDegradedMode :: bool
  gatekeeper :: Gatekeeper
  storedResults :: "(InterceptedPrompt \<times> SecurityAnalysis \<times> Action) list"

text \<open>What one pass of the pipeline reads from outside.\<close>

record Pass =
  remote :: remote_result
  t_try :: int
  t_catch :: int
  stamp1 :: Stamp
  stamp2 :: Stamp
  input :: UserInput

definition enterDegradedMode :: "Extension \<Rightarrow> Extension" where
  "enterDegradedMode ext = (if isDegradedMode ext then ext else ext\<lparr>isDegradedMode := True\<rparr>)"

definition exitDegradedMode :: "Extension \<Rightarrow> Extension" where
  "exitDegradedMode ext = (if \<not> isDegradedMode ext then ext else ext\<lparr>isDegradedMode := False\<rparr>)"

text \<open>\<open>checkServiceHealthAndUpdateStatus\<close>, given the answer of \<open>isServiceAvailable\<close>.\<close>

definition checkServiceHealthAndUpdateStatus :: "bool \<Rightarrow> Extension \<Rightarrow> Extension" where
  "checkServiceHealthAndUpdateStatus isAvailable ext =
     (if isAvailable then (if isDegradedMode ext then exitDegradedMode ext else ext)
      else enterDegradedMode ext)"

definition degradedAnalysis :: "LocalDetectionResult \<Rightarrow> SecurityAnalysis" where
  "degradedAnalysis localDetection =
     \<lparr>threatLevel = suggestedThreatLevel localDetection,
      confidence = (if hasThreats localDetection then 0.6 else 0.3),
      detectedPatterns = detectedPatterns_local localDetection,
      reasoning = JString ''Local pattern detection only (SLM unavailable)'',
      processingTime = 0\<rparr>"

text \<open>The two steps that both paths share: enforce the policy, store the result.\<close>

definition enforce_and_store ::
  "Platform \<Rightarrow> Pass \<Rightarrow> Extension \<Rightarrow> InterceptedPrompt \<Rightarrow> SecurityAnalysis
     \<Rightarrow> js_error + Extension" where
  "enforce_and_store pf ps ext prompt analysis' =
     (case enforceSecurityPolicy (Number_text pf) (sha256 pf) (stamp1 ps) (stamp2 ps) (input ps)
             (gatekeeper ext) analysis' prompt of
        Inl e \<Rightarrow> Inl e
      | Inr (d, gk') \<Rightarrow>
          Inr (ext\<lparr>gatekeeper := gk',
                   storedResults := storedResults ext @ [(prompt, analysis', action d)]\<rparr>))"

definition handleDegradedModeAnalysis ::
  "Platform \<Rightarrow> Pass \<Rightarrow> Extension \<Rightarrow> InterceptedPrompt \<Rightarrow> js_error + Extension" where
  "handleDegradedModeAnalysis pf ps ext prompt =
     enforce_and_store pf ps ext prompt
       (degradedAnalysis (detectThreatPatterns (regex_match pf) (content prompt)))"

text \<open>\<open>updateStatusFromAnalysis\<close>: the message of a dangerous or suspicious analysis is a
  template literal with the reasoning; the error it throws, if any.\<close>

definition updateStatusFromAnalysis :: "(real \<Rightarrow> string) \<Rightarrow> SecurityAnalysis \<Rightarrow> js_error option" where
  "updateStatusFromAnalysis num analysis' =
     (if threatLevel analysis' = dangerous \<or> threatLevel analysis' = suspicious then
        (case js_String num (reasoning analysis') of
           None \<Rightarrow> Some (TypeError cannot_convert)
         | Some text \<Rightarrow> None)
      else None)"

text \<open>\<open>s.includes(p)\<close>\<close>

fun js_includes :: "string \<Rightarrow> string \<Rightarrow> bool" where
  "js_includes [] p = (p = [])"
| "js_includes (c # cs) p = (take (length p) (c # cs) = p \<or> js_includes cs p)"

text \<open>
  \<open>handleAnalysisError\<close> of the extension module (the service has a method of the same
  name): an error whose message names a connectivity failure puts the extension in
  degraded mode and analyses the prompt again there; any other error only changes the
  status shown.
\<close>

definition handleAnalysisError_extension ::
  "Platform \<Rightarrow> Pass \<Rightarrow> js_error \<Rightarrow> Extension \<Rightarrow> InterceptedPrompt \<Rightarrow> js_error + Extension" where
  "handleAnalysisError_extension pf ps err ext prompt =
     (let errorMessage =
            (case err of
               AxiosError code status msg \<Rightarrow> msg
             | Error msg \<Rightarrow> msg
             | TypeError msg \<Rightarrow> msg
             | Thrown s \<Rightarrow> ''Unknown error'');
          isServiceError =
            (js_includes errorMessage ''ECONNREFUSED'' \<or> js_includes errorMessage ''ETIMEDOUT''
             \<or> js_includes errorMessage ''unavailable'')
      in if isServiceError
         then handleDegradedModeAnalysis pf ps (enterDegradedMode ext) prompt
         else Inr ext)"

text \<open>
  \<open>handlePromptAnalysis\<close>. In degraded mode \<open>handleDegradedModeAnalysis\<close> runs outside the
  \<open>try\<close> block. Otherwise an error thrown by \<open>enforceSecurityPolicy\<close> is caught before
  anything is stored, and an error thrown by \<open>updateStatusFromAnalysis\<close> after the result
  has been stored.
\<close>

definition handlePromptAnalysis ::
  "Platform \<Rightarrow> Pass \<Rightarrow> Extension \<Rightarrow> InterceptedPrompt \<Rightarrow> js_error + Extension" where
  "handlePromptAnalysis pf ps ext prompt =
     (if isDegradedMode ext then handleDegradedModeAnalysis pf ps ext prompt
      else
        let analysis' = analyzePrompt pf (remote ps) (t_try ps) (t_catch ps) prompt
        in case enforce_and_store pf ps ext prompt analysis' of
             Inl e \<Rightarrow> handleAnalysisError_extension pf ps e ext prompt
           | Inr ext' \<Rightarrow>
               (case updateStatusFromAnalysis (Number_text pf) analysis' of
                  None \<Rightarrow> Inr ext'
                | Some e \<Rightarrow> handleAnalysisError_extension pf ps e ext' prompt))"

section \<open>PerformanceMonitor: queue statistics\<close>

record QueueStats =
  currentSize :: nat
  peakSize :: nat
  totalProcessed :: nat
  averageWaitTime :: real
  droppedRequests :: nat

record PerformanceMonitor =
  maxQueueSize_config :: int
  queueStats :: QueueStats

definition updateQueueStats :: "nat \<Rightarrow> PerformanceMonitor \<Rightarrow> PerformanceMonitor" where
  "updateQueueStats size' pm =
     pm\<lparr>queueStats := (queueStats pm)
           \<lparr>currentSize := size',
            peakSize := (if size' > peakSize (queueStats pm) then size'
                         else peakSize (queueStats pm))\<rparr>\<rparr>"

definition recordQueueProcessed :: "int \<Rightarrow> PerformanceMonitor \<Rightarrow> PerformanceMonitor" where
  "recordQueueProcessed waitTime pm =
     pm\<lparr>queueStats := (queueStats pm)
           \<lparr>totalProcessed := totalProcessed (queueStats pm) + 1,
            averageWaitTime :=
              double_add (double_mul 0.1 (real_of_int waitTime))
                (double_mul (double_sub 1 0.1) (averageWaitTime (queueStats pm)))\<rparr>\<rparr>"

definition recordDroppedRequest :: "PerformanceMonitor \<Rightarrow> PerformanceMonitor" where
  "recordDroppedRequest pm =
     pm\<lparr>queueStats := (queueStats pm)\<lparr>droppedRequests := droppedRequests (queueStats pm) + 1\<rparr>\<rparr>"

definition canAcceptRequest :: "PerformanceMonitor \<Rightarrow> bool" where
  "canAcceptRequest pm = (int (currentSize (queueStats pm)) < maxQueueSize_config pm)"

section \<open>Interceptor: the admission queue\<close>

text \<open>
  A queued request holds the prompt and the \<open>resolve\<close> and \<open>reject\<close> functions of the
  promise returned to its submitter; \<open>promise\<close> names that promise. The field \<open>settled\<close>
  of the interceptor's state records how the promises handed out have ended, in order:
  what each submitter is told.
\<close>

datatype settlement = Resolved InterceptedPrompt | Rejected js_error

record QueuedRequest =
  prompt_q :: InterceptedPrompt
  promise :: nat
  queuedAt :: int

record Interceptor =
  requestQueue :: "QueuedRequest list"
  isProcessing :: bool
  performanceMonitor :: "PerformanceMonitor option"
  settled :: "(nat \<times> settlement) list"

definition maxQueueSize :: nat where
  "maxQueueSize = 100"

text \<open>
  The prompt handler: \<open>None\<close> while none is set; a handler gives \<open>None\<close> when it returns
  and the error when it throws.
\<close>

type_synonym handler = "(InterceptedPrompt \<Rightarrow> js_error option) option"

text \<open>\<open>error instanceof Error ? error : new Error(String(error))\<close>\<close>

fun as_Error :: "js_error \<Rightarrow> js_error" where
  "as_Error (Thrown s) = Error s"
| "as_Error e = e"

text \<open>
  The \<open>while\<close> loop of \<open>processQueue\<close>, on the requests still queued: each is taken from
  the front, counted, handled, and its promise resolved with its own prompt, or rejected
  with the error of the handler. \<open>dequeuedAt\<close> is the clock at the time a request is
  taken.
\<close>

fun process_requests ::
  "handler \<Rightarrow> (QueuedRequest \<Rightarrow> int) \<Rightarrow> QueuedRequest list
     \<Rightarrow> PerformanceMonitor option \<times> (nat \<times> settlement) list
     \<Rightarrow> PerformanceMonitor option \<times> (nat \<times> settlement) list" where
  "process_requests h dequeuedAt [] (pm, done) = (pm, done)"
| "process_requests h dequeuedAt (request # rest) (pm, done) =
     (let waitTime = dequeuedAt request - queuedAt request;
          pm' = map_option (\<lambda>m. recordQueueProcessed waitTime (updateQueueStats (length rest) m)) pm;
          thrown = (case h of None \<Rightarrow> None | Some f \<Rightarrow> f (prompt_q request));
          outcome = (case thrown of
                       None \<Rightarrow> Resolved (prompt_q request)
                     | Some e \<Rightarrow> Rejected (as_Error e))
      in process_requests h dequeuedAt rest (pm', done @ [(promise request, outcome)]))"

text \<open>
  \<open>processQueue\<close>, run to the end without a submission arriving in between. A state with
  \<open>isProcessing\<close> set is what a submission sees that arrives while the worker waits for
  the handler.
\<close>

definition processQueue :: "handler \<Rightarrow> (QueuedRequest \<Rightarrow> int) \<Rightarrow> Interceptor \<Rightarrow> Interceptor" where
  "processQueue h dequeuedAt itc =
     (if isProcessing itc then itc
      else
        (case process_requests h dequeuedAt (requestQueue itc) (performanceMonitor itc, settled itc) of
           (pm, done) \<Rightarrow>
             itc\<lparr>requestQueue := [], isProcessing := False,
                 performanceMonitor := map_option (updateQueueStats 0) pm,
                 settled := done\<rparr>))"

text \<open>
  \<open>queuePrompt\<close>: the body of the promise's executor. \<open>token\<close> is \<open>None\<close> when the call
  has no cancellation token, else whether cancellation has been requested already; \<open>p\<close>
  names the promise being made, \<open>now\<close> is the clock.
\<close>

definition queuePrompt ::
  "handler \<Rightarrow> (QueuedRequest \<Rightarrow> int) \<Rightarrow> int \<Rightarrow> nat \<Rightarrow> bool option \<Rightarrow> Interceptor
     \<Rightarrow> InterceptedPrompt \<Rightarrow> Interceptor" where
  "queuePrompt h dequeuedAt now p token itc prompt =
     (if token = Some True then
        itc\<lparr>settled := settled itc @ [(p, Rejected (Error ''Cancelled''))]\<rparr>
      else if (case performanceMonitor itc of None \<Rightarrow> False | Some pm \<Rightarrow> \<not> canAcceptRequest pm) then
        itc\<lparr>performanceMonitor := map_option recordDroppedRequest (performanceMonitor itc),
            settled := settled itc @ [(p, Rejected (Error ''Queue capacity exceeded''))]\<rparr>
      else if length (requestQueue itc) \<ge> maxQueueSize then
        itc\<lparr>settled := settled itc @ [(p, Rejected (Error ''Queue capacity exceeded''))]\<rparr>
      else
        let queuedRequest = \<lparr>prompt_q = prompt, promise = p, queuedAt = now\<rparr>;
            queue' = requestQueue itc @ [queuedRequest]
        in processQueue h dequeuedAt
             (itc\<lparr>requestQueue := queue',
                  performanceMonitor :=
                    map_option (updateQueueStats (length queue')) (performanceMonitor itc)\<rparr>))"

text \<open>The cancellation listener that \<open>queuePrompt\<close> registers for the promise \<open>p\<close>.\<close>

definition onCancellationRequested :: "nat \<Rightarrow> Interceptor \<Rightarrow> Interceptor" where
  "onCancellationRequested p itc =
     (if p \<in> promise ` set (requestQueue itc) then
        let queue' = filter (\<lambda>r. promise r \<noteq> p) (requestQueue itc)
        in itc\<lparr>requestQueue := queue',
               performanceMonitor :=
                 map_option (updateQueueStats (length queue')) (performanceMonitor itc),
               settled := settled itc @ [(p, Rejected (Error ''Cancelled''))]\<rparr>
      else itc)"

text \<open>\<open>createInterceptedPrompt\<close>, with the identifier and the time it draws from the
  platform.\<close>

definition createInterceptedPrompt ::
  "string \<Rightarrow> int \<Rightarrow> string \<Rightarrow> Source \<Rightarrow> PromptMetadata \<Rightarrow> InterceptedPrompt" where
  "createInterceptedPrompt newId now content' source' metadata' =
     \<lparr>id_prompt = newId, content = content', timestamp = now, source = source',
      metadata = metadata'\<rparr>"

section \<open>Example inputs\<close>

text \<open>
  An engine for the examples below: it finds \<open>/jailbreak/i\<close> in the text \<open>jailbreak\<close>,
  and the second expression of the role manipulation rules (\<open>act\<close>, \<open>as\<close> and an article,
  separated by white space) in the text \<open>act as a pirate\<close>, where it matches \<open>act as a\<close>;
  it reports no match otherwise, as the expressions of the source do on these two texts
  and on the text \<open>hello\<close>.
\<close>

definition example_match :: matcher where
  "example_match r s =
     (if r = Rx rule_bypass 9 \<and> s = ''jailbreak'' then Some s
      else if r = Rx role_manipulation 1 \<and> s = ''act as a pirate'' then Some ''act as a''
      else None)"

text \<open>A rule set of low severity, which \<open>ALL_THREAT_PATTERNS\<close> does not have.\<close>

definition example_low_rules :: "ThreatPatternDefinition list" where
  "example_low_rules =
     [\<lparr>type_def = role_manipulation, patterns = [Rx rule_bypass 9], severity_def = low,
       description_def = ''example''\<rparr>]"

definition example_local :: LocalDetectionResult where
  "example_local =
     \<lparr>hasThreats = True,
      detectedPatterns_local =
        [\<lparr>type = rule_bypass, pattern = ''jailbreak'', severity = high,
          description = ''Attempt to bypass or ignore system rules and instructions''\<rparr>],
      suggestedThreatLevel = dangerous\<rparr>"


definition example_remote :: "ThreatLevel \<Rightarrow> real \<Rightarrow> SecurityAnalysis" where
  "example_remote level c =
     \<lparr>threatLevel = level, confidence = c, detectedPatterns = [],
      reasoning = JString ''Looks like an injection attempt'', processingTime = 120\<rparr>"


definition example_reply :: json where
  "example_reply =
     JObject [(''threatLevel'', JString ''critical''), (''confidence'', JNumber 1.5),
              (''detectedPatterns'',
                 JArray [JString ''x'',
                         JObject [(''type'', JString ''phishing''), (''severity'', JString ''extreme'')],
                         JNull])]"


definition example_odd_reasoning :: json where
  "example_odd_reasoning = JObject [(''toString'', JNumber 1)]"

definition example_odd_reply :: json where
  "example_odd_reply =
     JObject [(''threatLevel'', JString ''dangerous''), (''confidence'', JNumber 0.9),
              (''reasoning'', example_odd_reasoning)]"


definition example_array_reply :: json where
  "example_array_reply = JObject [(''detectedPatterns'', JArray [JArray [JNumber 1]])]"

definition example_parse :: "string \<Rightarrow> json option" where
  \<open>example_parse s =
     (if s = ''{"threatLevel":"critical","confidence":1.5,"detectedPatterns":["x",{"type":"phishing","severity":"extreme"},null]}''
      then Some example_reply
      else if s = ''{"threatLevel":"dangerous","confidence":0.9,"reasoning":{"toString":1}}''
      then Some example_odd_reply
      else if s = ''{"detectedPatterns":[[1]]}''
      then Some example_array_reply
      else None)\<close>

definition example_num :: "real \<Rightarrow> string" where
  "example_num x = ''1.5''"

text \<open>A platform, a prompt, a gatekeeper at medium sensitivity and a pass of the pipeline in
  which the connection to the classifier is refused.\<close>

definition example_platform :: Platform where
  "example_platform =
     \<lparr>regex_match = example_match, JSON_parse = example_parse, Number_text = example_num,
      sha256 = (\<lambda>s. ''digest'')\<rparr>"

definition example_prompt :: "string \<Rightarrow> InterceptedPrompt" where
  "example_prompt c =
     \<lparr>id_prompt = ''prompt-1'', content = c, timestamp = 0, source = command,
      metadata = \<lparr>participantId = None, commandId = Some ''cloak.analyzePrompt'',
                  sessionId = Some ''session-1''\<rparr>\<rparr>"

definition example_gatekeeper :: "bool \<Rightarrow> Gatekeeper" where
  "example_gatekeeper logging =
     \<lparr>config = \<lparr>blockThreshold = 0.7, warnThreshold = 0.5, enableUserOverride = True,
                 enableAuditLog = logging\<rparr>,
      auditLog = [], localStorageService = Some [], outputChannel = []\<rparr>"

definition example_extension :: "bool \<Rightarrow> Extension" where
  "example_extension degraded =
     \<lparr>isDegradedMode = degraded, gatekeeper = example_gatekeeper True, storedResults = []\<rparr>"

definition example_refused :: js_error where
  "example_refused = AxiosError (Some ''ECONNREFUSED'') None ''connect ECONNREFUSED 127.0.0.1:1234''"

definition example_pass :: Pass where
  "example_pass =
     \<lparr>remote = Remote_failed example_refused, t_try = 0, t_catch = 30,
      stamp1 = \<lparr>stamp_id = ''evt_1'', stamp_time = 1\<rparr>,
      stamp2 = \<lparr>stamp_id = ''evt_2'', stamp_time = 2\<rparr>,
      input = \<lparr>selection = None, confirmation = None\<rparr>\<rparr>"

text \<open>The number of override events in the audit log.\<close>

definition override_count :: "Gatekeeper \<Rightarrow> nat" where
  "override_count gk = length (filter (\<lambda>e. eventType e = ev_override) (auditLog gk))"

text \<open>A dangerous analysis at confidence 0.9, and the decision to block that the gatekeeper
  makes of it at medium sensitivity.\<close>

definition example_analysis :: SecurityAnalysis where
  "example_analysis =
     \<lparr>threatLevel = dangerous, confidence = 0.9,
      detectedPatterns = detectedPatterns_local example_local,
      reasoning = JString ''Injection attempt'', processingTime = 120\<rparr>"

definition example_block_decision :: SecurityDecision where
  "example_block_decision =
     \<lparr>action = block, reason = ''Detected patterns: rule_bypass. Injection attempt'',
      originalPrompt = example_prompt ''jailbreak'', analysis = example_analysis,
      userOverride = None\<rparr>"

definition example_override :: UserInput where
  "example_override =
     \<lparr>selection = Some ''Override (Proceed Anyway)'',
      confirmation = Some ''Yes, I understand the risks''\<rparr>"

text \<open>
  An interceptor whose worker waits for the handler while a hundred requests are queued,
  with a monitor at its default limit of 100; an idle interceptor; a handler that returns
  normally; a clock that takes every request 5 ms after it was queued.
\<close>

definition example_request :: "nat \<Rightarrow> QueuedRequest" where
  "example_request n = \<lparr>prompt_q = example_prompt ''hello'', promise = n, queuedAt = 0\<rparr>"

definition example_monitor :: "nat \<Rightarrow> PerformanceMonitor" where
  "example_monitor n =
     \<lparr>maxQueueSize_config = 100,
      queueStats = \<lparr>currentSize = n, peakSize = n, totalProcessed = 0, averageWaitTime = 0,
                    droppedRequests = 0\<rparr>\<rparr>"

definition example_full_interceptor :: Interceptor where
  "example_full_interceptor =
     \<lparr>requestQueue = map example_request [0..<100], isProcessing = True,
      performanceMonitor = Some (example_monitor 100), settled = []\<rparr>"

definition example_idle_interceptor :: Interceptor where
  "example_idle_interceptor =
     \<lparr>requestQueue = [], isProcessing = False,
      performanceMonitor = Some (example_monitor 0), settled = []\<rparr>"

definition example_handler :: handler where
  "example_handler = Some (\<lambda>p. None)"

definition example_clock :: "QueuedRequest \<Rightarrow> int" where
  "example_clock r = queuedAt r + 5"

section \<open>Properties of the numbers\<close>

lemma binade:
  assumes "2 powr of_int e \<le> \<bar>x\<bar>" and "\<bar>x\<bar> < 2 powr of_int (e + 1)"
  shows "\<lfloor>log 2 \<bar>x\<bar>\<rfloor> = e"
proof -
  have "0 < 2 powr real_of_int e" by simp
  with assms(1) have pos: "0 < \<bar>x\<bar>" by linarith
  show ?thesis
    using assms pos by (subst floor_log_eq_powr_iff) (auto simp add: add.commute)
qed

lemma double_in_binade:
  assumes "2 powr of_int e \<le> \<bar>x\<bar>" and "\<bar>x\<bar> < 2 powr of_int (e + 1)" and "- 1022 \<le> e"
  shows "double x = of_int (round_even (x / 2 powr of_int (e - 52))) * 2 powr of_int (e - 52)"
proof -
  have "0 < 2 powr real_of_int e" by simp
  with assms(1) have "x \<noteq> 0" by auto
  moreover have "\<lfloor>log 2 \<bar>x\<bar>\<rfloor> = e" using assms(1,2) by (rule binade)
  moreover have "max (e - 52) (- 1074) = e - 52" using assms(3) by simp
  ultimately show ?thesis by (simp add: double_def)
qed

text \<open>The doubles that the literals of the source and of the examples denote.\<close>

lemma double_0: "double 0 = 0"
  by (simp add: double_def)

lemma double_1: "double 1 = 1"
  by (subst double_in_binade[where e = "0"]) (simp_all add: round_even_def powr_minus)

lemma double_0_1: "double 0.1 = 3602879701896397 / 36028797018963968"
  by (subst double_in_binade[where e = "-4"]) (simp_all add: round_even_def powr_minus)

lemma double_0_3: "double 0.3 = 5404319552844595 / 18014398509481984"
  by (subst double_in_binade[where e = "-2"]) (simp_all add: round_even_def powr_minus)

lemma double_0_4: "double 0.4 = 3602879701896397 / 9007199254740992"
  by (subst double_in_binade[where e = "-2"]) (simp_all add: round_even_def powr_minus)

lemma double_0_5: "double 0.5 = 0.5"
  by (subst double_in_binade[where e = "-1"]) (simp_all add: round_even_def powr_minus)

lemma double_0_55: "double 0.55 = 2476979795053773 / 4503599627370496"
  by (subst double_in_binade[where e = "-1"]) (simp_all add: round_even_def powr_minus)

lemma double_0_6: "double 0.6 = 5404319552844595 / 9007199254740992"
  by (subst double_in_binade[where e = "-1"]) (simp_all add: round_even_def powr_minus)

lemma double_0_7: "double 0.7 = 3152519739159347 / 4503599627370496"
  by (subst double_in_binade[where e = "-1"]) (simp_all add: round_even_def powr_minus)

lemma double_0_9: "double 0.9 = 8106479329266893 / 9007199254740992"
  by (subst double_in_binade[where e = "-1"]) (simp_all add: round_even_def powr_minus)

lemma double_0_95: "double 0.95 = 4278419646001971 / 4503599627370496"
  by (subst double_in_binade[where e = "-1"]) (simp_all add: round_even_def powr_minus)

lemma double_1_5: "double 1.5 = 1.5"
  by (subst double_in_binade[where e = "0"]) (simp_all add: round_even_def powr_minus)

text \<open>The same values, with the decimal fractions in lowest terms.\<close>

lemma double_lowest_terms:
  "double (1 / 10) = 3602879701896397 / 36028797018963968"
  "double (3 / 10) = 5404319552844595 / 18014398509481984"
  "double (2 / 5) = 3602879701896397 / 9007199254740992"
  "double (1 / 2) = 1 / 2"
  "double (11 / 20) = 2476979795053773 / 4503599627370496"
  "double (3 / 5) = 5404319552844595 / 9007199254740992"
  "double (7 / 10) = 3152519739159347 / 4503599627370496"
  "double (9 / 10) = 8106479329266893 / 9007199254740992"
  "double (19 / 20) = 4278419646001971 / 4503599627370496"
  "double (3 / 2) = 3 / 2"
  using double_0_1 double_0_3 double_0_4 double_0_5 double_0_55 double_0_6 double_0_7
    double_0_9 double_0_95 double_1_5
  by simp_all

text \<open>The doubles that the examples meet are doubles.\<close>

lemma double_of_double:
  "double (8106479329266893 / 9007199254740992) = 8106479329266893 / 9007199254740992"
  "double (3152519739159347 / 4503599627370496) = 3152519739159347 / 4503599627370496"
  "double (5404319552844595 / 9007199254740992) = 5404319552844595 / 9007199254740992"
  "double (7205759403792793 / 9007199254740992) = 7205759403792793 / 9007199254740992"
  by (subst double_in_binade[where e = "-1"], simp_all add: round_even_def powr_minus)+

lemmas double_literals =
  double_0 double_1 double_0_1 double_0_3 double_0_4 double_0_5 double_0_55 double_0_6
  double_0_7 double_0_9 double_0_95 double_1_5 double_lowest_terms double_of_double

text \<open>In doubles, 0.7 + 0.1 is the double below 0.8, 0.6 + 0.1 is the double 0.7, and the
  double below 0.4 plus 0.1 is 0.5.\<close>

lemma double_add_0_7: "double_add 0.7 0.1 = 7205759403792793 / 9007199254740992"
  unfolding double_add_def double_0_7 double_0_1
  by (subst double_in_binade[where e = "-1"]) (simp_all add: round_even_def powr_minus)

lemma double_add_0_6: "double_add 0.6 0.1 = double 0.7"
  unfolding double_add_def double_0_6 double_0_1 double_0_7
  by (subst double_in_binade[where e = "-1"]) (simp_all add: round_even_def powr_minus)

lemma double_add_0_5: "double_add 0.5 0.1 = double 0.6"
  unfolding double_add_def double_0_5 double_0_1 double_0_6
  by (subst double_in_binade[where e = "-1"]) (simp_all add: round_even_def powr_minus)

lemma double_add_0_95: "double_add 0.95 0.1 = 4728779608739021 / 4503599627370496"
  unfolding double_add_def double_0_95 double_0_1
  by (subst double_in_binade[where e = "0"]) (simp_all add: round_even_def powr_minus)

lemma double_below_0_4: "double (7205759403792793 / 18014398509481984) = 7205759403792793 / 18014398509481984"
  by (subst double_in_binade[where e = "-2"]) (simp_all add: round_even_def powr_minus)

lemma double_add_below_0_4: "double_add (7205759403792793 / 18014398509481984) 0.1 = 0.5"
  unfolding double_add_def double_below_0_4 double_0_1
  by (subst double_in_binade[where e = "-2"]) (simp_all add: round_even_def powr_minus)

lemma round_even_nonneg: "0 \<le> q \<Longrightarrow> 0 \<le> round_even q"
proof -
  assume "0 \<le> q"
  then have "0 \<le> \<lfloor>q\<rfloor>" by simp
  then show ?thesis by (auto simp add: round_even_def Let_def)
qed

lemma double_nonneg: "0 \<le> x \<Longrightarrow> 0 \<le> double x"
  by (simp add: double_def Let_def round_even_nonneg)

lemma double_add_nonneg: "0 \<le> x \<Longrightarrow> 0 \<le> y \<Longrightarrow> 0 \<le> double_add x y"
  by (simp add: double_add_def double_nonneg)

lemma round_even_error: "\<bar>of_int (round_even q) - q\<bar> \<le> 1 / 2"
  unfolding round_even_def Let_def by (auto; linarith)

text \<open>A number below 2 is within \<open>2^-53\<close> of its double.\<close>

lemma double_error:
  assumes "\<bar>x\<bar> < 2"
  shows "\<bar>double x - x\<bar> \<le> 1 / 2 ^ 53"
proof (cases "x = 0")
  case True
  then show ?thesis by (simp add: double_def)
next
  case False
  define k where "k = max (\<lfloor>log 2 \<bar>x\<bar>\<rfloor> - 52) (- 1074)"
  have "log 2 \<bar>x\<bar> < log 2 2"
    using assms False by (subst log_less_cancel_iff) auto
  then have "\<lfloor>log 2 \<bar>x\<bar>\<rfloor> \<le> 0" by (simp add: floor_le_iff)
  then have k: "k \<le> - 52" by (simp add: k_def)
  have p: "0 < 2 powr real_of_int k" by simp
  have "2 powr real_of_int k \<le> 2 powr real_of_int (- 52)"
    using k by (intro powr_mono) auto
  also have "\<dots> = 1 / 2 ^ 52" by (simp add: powr_minus)
  finally have small: "2 powr real_of_int k \<le> 1 / 2 ^ 52" .
  have d: "double x = of_int (round_even (x / 2 powr of_int k)) * 2 powr of_int k"
    using False by (simp add: double_def k_def Let_def)
  have "double x - x = (of_int (round_even (x / 2 powr of_int k)) - x / 2 powr of_int k) * 2 powr of_int k"
    using p by (simp add: d field_simps)
  then have "\<bar>double x - x\<bar> = \<bar>of_int (round_even (x / 2 powr of_int k)) - x / 2 powr of_int k\<bar> * 2 powr of_int k"
    using p by (simp add: abs_mult)
  also have "\<dots> \<le> (1 / 2) * 2 powr of_int k"
    using round_even_error[of "x / 2 powr of_int k"] p by (intro mult_right_mono) auto
  also have "\<dots> \<le> (1 / 2) * (1 / 2 ^ 52)"
    using small by simp
  finally show ?thesis by simp
qed

text \<open>For a confidence in [0,1] the sum of doubles is within \<open>2^-51\<close> of the exact sum.\<close>

lemma double_add_0_1_error:
  assumes "0 \<le> c" and "c \<le> 1"
  shows "\<bar>double_add c 0.1 - (c + 0.1)\<bar> \<le> 1 / 2 ^ 51"
proof -
  have e1: "\<bar>double c - c\<bar> \<le> 1 / 2 ^ 53"
    using assms by (intro double_error) auto
  have e2: "\<bar>double 0.1 - 0.1\<bar> \<le> 1 / 2 ^ 53"
    by (intro double_error) auto
  have b1: "double c \<le> c + 1 / 2 ^ 53" "c - 1 / 2 ^ 53 \<le> double c"
    using e1 by (simp_all only: abs_le_iff) linarith+
  have b2: "double 0.1 \<le> 0.1 + 1 / 2 ^ 53" "0.1 - 1 / 2 ^ 53 \<le> double 0.1"
    using e2 by (simp_all only: abs_le_iff) linarith+
  have "double c + double 0.1 < 2" "- 2 < double c + double 0.1"
    using b1 b2 assms by simp_all
  then have "\<bar>double c + double 0.1\<bar> < 2"
    by arith
  then have e3: "\<bar>double (double c + double 0.1) - (double c + double 0.1)\<bar> \<le> 1 / 2 ^ 53"
    by (rule double_error)
  have b3: "double (double c + double 0.1) \<le> double c + double 0.1 + 1 / 2 ^ 53"
    "double c + double 0.1 - 1 / 2 ^ 53 \<le> double (double c + double 0.1)"
    using e3 by (simp_all only: abs_le_iff) linarith+
  have "double_add c 0.1 - (c + 0.1) \<le> 1 / 2 ^ 51" "- (1 / 2 ^ 51) \<le> double_add c 0.1 - (c + 0.1)"
    using b1 b2 b3 unfolding double_add_def by simp_all
  then show ?thesis
    by arith
qed

section \<open>Properties of the pattern detector\<close>

lemma set_order_props:
  "distinct seen \<Longrightarrow> distinct (set_order seen xs) \<and> set (set_order seen xs) = set seen \<union> set xs"
  by (induction xs arbitrary: seen) auto

lemma new_Set_size: "length (new_Set xs) = card (set xs)"
proof -
  have "distinct (set_order [] xs)" and "set (set_order [] xs) = set xs"
    using set_order_props[of "[]" xs] by simp_all
  then show ?thesis
    unfolding new_Set_def by (metis distinct_card)
qed

lemma first_match_none: "\<forall>r\<in>set rs. rx r c = None \<Longrightarrow> first_match rx c rs = None"
  by (induction rs) simp_all

lemma detect_loop_none:
  "\<forall>d\<in>set defs. \<forall>r\<in>set (patterns d). rx r c = None \<Longrightarrow> detect_loop rx c defs st = st"
proof (induction defs arbitrary: st)
  case Nil
  then show ?case by (cases st) simp
next
  case (Cons d defs)
  then show ?case by (cases st) (simp add: first_match_none)
qed

lemma detect_loop_maxSeverity:
  assumes "detect_loop rx c defs (acc, ms) = (out, ms')"
    and "ms = high \<longleftrightarrow> (\<exists>p\<in>set acc. severity p = high)"
    and "ms = medium \<longleftrightarrow> (\<not> (\<exists>p\<in>set acc. severity p = high) \<and> (\<exists>p\<in>set acc. severity p = medium))"
  shows "(ms' = high \<longleftrightarrow> (\<exists>p\<in>set out. severity p = high))
       \<and> (ms' = medium \<longleftrightarrow> (\<not> (\<exists>p\<in>set out. severity p = high) \<and> (\<exists>p\<in>set out. severity p = medium)))"
  using assms
proof (induction defs arbitrary: acc ms)
  case Nil
  then show ?case by simp
next
  case (Cons d defs)
  show ?case
  proof (cases "first_match rx c (patterns d)")
    case None
    with Cons.prems have "detect_loop rx c defs (acc, ms) = (out, ms')" by simp
    from Cons.IH[OF this Cons.prems(2) Cons.prems(3)] show ?thesis .
  next
    case (Some m)
    let ?p = "\<lparr>type = type_def d, pattern = m, severity = severity_def d, description = description_def d\<rparr>"
    let ?ms = "if severity_def d = high then high
               else if severity_def d = medium \<and> ms \<noteq> high then medium else ms"
    from Some Cons.prems(1) have run: "detect_loop rx c defs (acc @ [?p], ?ms) = (out, ms')" by simp
    have h: "?ms = high \<longleftrightarrow> (\<exists>p\<in>set (acc @ [?p]). severity p = high)"
      using Cons.prems(2) by (cases "severity_def d") auto
    have m: "?ms = medium \<longleftrightarrow> (\<not> (\<exists>p\<in>set (acc @ [?p]). severity p = high)
               \<and> (\<exists>p\<in>set (acc @ [?p]). severity p = medium))"
      using Cons.prems(2) Cons.prems(3) by (cases "severity_def d") auto
    from Cons.IH[OF run h m] show ?thesis .
  qed
qed

lemma single_low:
  assumes "ps \<noteq> []" and "\<not> 2 \<le> length ps"
    and "\<not> (\<exists>p\<in>set ps. severity p = high)" and "\<not> (\<exists>p\<in>set ps. severity p = medium)"
  shows "\<exists>p. ps = [p] \<and> severity p = low"
proof -
  from assms(1,2) obtain p where ps: "ps = [p]" by (cases ps) (auto simp: Suc_le_eq)
  with assms(3,4) have "severity p = low" by (cases "severity p") auto
  with ps show ?thesis by simp
qed

lemma detect_on_level:
  "suggestedThreatLevel (detectThreatPatterns_on defs rx c) =
     (let ps = detectedPatterns_local (detectThreatPatterns_on defs rx c) in
      if ps = [] then safe
      else if 2 \<le> length (filter (\<lambda>p. severity p = high) ps) \<or> 3 \<le> card (type ` set ps) then dangerous
      else if (\<exists>p\<in>set ps. severity p = high) then dangerous
      else if (\<exists>p\<in>set ps. severity p = medium) \<or> 2 \<le> length ps then suspicious
      else suspicious)"
proof -
  obtain out ms where run: "detect_loop rx c defs ([], low) = (out, ms)"
    by (cases "detect_loop rx c defs ([], low)")
  have inv: "(ms = high \<longleftrightarrow> (\<exists>p\<in>set out. severity p = high))"
    using detect_loop_maxSeverity[OF run] by simp
  show ?thesis
    using inv by (simp add: detectThreatPatterns_on_def run classifyThreatLevel_def Let_def new_Set_size)
qed

lemma detect_on_hasThreats:
  "hasThreats (detectThreatPatterns_on defs rx c) \<longleftrightarrow> detectedPatterns_local (detectThreatPatterns_on defs rx c) \<noteq> []"
  by (simp add: detectThreatPatterns_on_def split: prod.splits)

lemma detect_on_clean:
  "\<forall>d\<in>set defs. \<forall>r\<in>set (patterns d). rx r c = None \<Longrightarrow>
   detectThreatPatterns_on defs rx c = \<lparr>hasThreats = False, detectedPatterns_local = [], suggestedThreatLevel = safe\<rparr>"
  by (simp add: detectThreatPatterns_on_def detect_loop_none classifyThreatLevel_def)

text \<open>
  C4. For every text, whatever the engine reports and for any list of rule sets (the
  service's \<open>ALL_THREAT_PATTERNS\<close> among them), the suggested level follows from the
  recorded indicators by these rules, in this order: no indicator gives safe; at least two
  indicators of high severity, or at least three distinct categories, give dangerous;
  otherwise an indicator of high severity gives dangerous; otherwise an indicator of
  medium severity, or at least two indicators, give suspicious; otherwise the level is
  suspicious, and then there is exactly one indicator, of low severity. So the level is
  safe only when no indicator was recorded, \<open>hasThreats\<close> says whether one was, and a text
  that no expression of any rule set matches gives no indicator and the level safe.
\<close>

theorem detectThreatPatterns_level:
  "detectThreatPatterns rx c = detectThreatPatterns_on ALL_THREAT_PATTERNS rx c
   \<and> (let r = detectThreatPatterns_on defs rx c; ps = detectedPatterns_local r in
     suggestedThreatLevel r =
       (if ps = [] then safe
        else if 2 \<le> length (filter (\<lambda>p. severity p = high) ps) \<or> 3 \<le> card (type ` set ps)
          then dangerous
        else if (\<exists>p\<in>set ps. severity p = high) then dangerous
        else if (\<exists>p\<in>set ps. severity p = medium) \<or> 2 \<le> length ps then suspicious
        else suspicious)
     \<and> (ps \<noteq> [] \<and> \<not> 2 \<le> length ps \<and> \<not> (\<exists>p\<in>set ps. severity p = high)
          \<and> \<not> (\<exists>p\<in>set ps. severity p = medium) \<longrightarrow> (\<exists>p. ps = [p] \<and> severity p = low))
     \<and> (suggestedThreatLevel r = safe \<longleftrightarrow> ps = [])
     \<and> (hasThreats r \<longleftrightarrow> ps \<noteq> [])
     \<and> ((\<forall>d\<in>set defs. \<forall>x\<in>set (patterns d). rx x c = None) \<longrightarrow>
          ps = [] \<and> suggestedThreatLevel r = safe))"
proof -
  let ?r = "detectThreatPatterns_on defs rx c"
  let ?ps = "detectedPatterns_local ?r"
  have lvl: "suggestedThreatLevel ?r =
       (if ?ps = [] then safe
        else if 2 \<le> length (filter (\<lambda>p. severity p = high) ?ps) \<or> 3 \<le> card (type ` set ?ps)
          then dangerous
        else if (\<exists>p\<in>set ?ps. severity p = high) then dangerous
        else if (\<exists>p\<in>set ?ps. severity p = medium) \<or> 2 \<le> length ?ps then suspicious
        else suspicious)"
    using detect_on_level[of defs rx c] unfolding Let_def .
  have one: "?ps \<noteq> [] \<and> \<not> 2 \<le> length ?ps \<and> \<not> (\<exists>p\<in>set ?ps. severity p = high)
          \<and> \<not> (\<exists>p\<in>set ?ps. severity p = medium) \<longrightarrow> (\<exists>p. ?ps = [p] \<and> severity p = low)"
    using single_low[of ?ps] by blast
  have nosafe: "suggestedThreatLevel ?r = safe \<longleftrightarrow> ?ps = []"
    unfolding lvl by simp
  have ht: "hasThreats ?r \<longleftrightarrow> ?ps \<noteq> []"
    by (rule detect_on_hasThreats)
  have clean: "(\<forall>d\<in>set defs. \<forall>x\<in>set (patterns d). rx x c = None) \<longrightarrow>
          ?ps = [] \<and> suggestedThreatLevel ?r = safe"
    by (simp add: detect_on_clean)
  have inst: "detectThreatPatterns rx c = detectThreatPatterns_on ALL_THREAT_PATTERNS rx c"
    by (simp add: detectThreatPatterns_def)
  from inst lvl one nosafe ht clean show ?thesis
    unfolding Let_def by blast
qed

lemma example_match_hello: "example_match x ''hello'' = None"
  by (simp add: example_match_def)

lemma example_low_detection:
  "detectThreatPatterns_on example_low_rules example_match ''jailbreak'' =
     \<lparr>hasThreats = True,
      detectedPatterns_local =
        [\<lparr>type = role_manipulation, pattern = ''jailbreak'', severity = low,
          description = ''example''\<rparr>],
      suggestedThreatLevel = suspicious\<rparr>"
  by (simp add: detectThreatPatterns_on_def example_low_rules_def example_match_def
        classifyThreatLevel_def new_Set_def)

theorem detectThreatPatterns_level_witness:
  "detectThreatPatterns example_match ''hello'' =
       \<lparr>hasThreats = False, detectedPatterns_local = [], suggestedThreatLevel = safe\<rparr>
   \<and> detectedPatterns_local (detectThreatPatterns_on example_low_rules example_match ''jailbreak'')
       = [\<lparr>type = role_manipulation, pattern = ''jailbreak'', severity = low,
            description = ''example''\<rparr>]
   \<and> suggestedThreatLevel (detectThreatPatterns_on example_low_rules example_match ''jailbreak'')
       = suspicious"
proof -
  note t1 = detectThreatPatterns_level[where rx = example_match and c = "''hello''"
              and defs = ALL_THREAT_PATTERNS, unfolded Let_def]
  note t2 = detectThreatPatterns_level[where rx = example_match and c = "''jailbreak''"
              and defs = example_low_rules, unfolded Let_def]
  have clean: "\<forall>d\<in>set ALL_THREAT_PATTERNS. \<forall>x\<in>set (patterns d). example_match x ''hello'' = None"
    by (simp add: example_match_hello)
  have r1: "detectThreatPatterns example_match ''hello'' =
       \<lparr>hasThreats = False, detectedPatterns_local = [], suggestedThreatLevel = safe\<rparr>"
    using t1 clean by (cases "detectThreatPatterns example_match ''hello''") simp
  have r2: "suggestedThreatLevel (detectThreatPatterns_on example_low_rules example_match ''jailbreak'')
       = suspicious"
    using t2 by (simp add: example_low_detection)
  from r1 r2 show ?thesis by (simp add: example_low_detection)
qed

lemma example_detect_hello:
  "detectThreatPatterns example_match ''hello'' =
     \<lparr>hasThreats = False, detectedPatterns_local = [], suggestedThreatLevel = safe\<rparr>"
  by (simp add: detectThreatPatterns_def detectThreatPatterns_on_def ALL_THREAT_PATTERNS_def
        RULE_BYPASS_PATTERNS_def SECRET_EXTRACTION_PATTERNS_def COMMAND_INJECTION_PATTERNS_def
        ROLE_MANIPULATION_PATTERNS_def example_match_def classifyThreatLevel_def
        detect_loop_none first_match_none)

lemma example_detect_jailbreak:
  "detectThreatPatterns example_match ''jailbreak'' = example_local"
  by (simp add: detectThreatPatterns_def detectThreatPatterns_on_def ALL_THREAT_PATTERNS_def
        RULE_BYPASS_PATTERNS_def SECRET_EXTRACTION_PATTERNS_def COMMAND_INJECTION_PATTERNS_def
        ROLE_MANIPULATION_PATTERNS_def example_match_def classifyThreatLevel_def
        upt_conv_Cons new_Set_def example_local_def)


section \<open>Properties of the decision engine\<close>

lemma makeDecision_converted:
  assumes "js_String num (reasoning a) = Some tx"
  shows "\<exists>d. makeDecision num cfg a p = Inr d
           \<and> originalPrompt d = p \<and> analysis d = a \<and> userOverride d = None
           \<and> action d =
               (if threatLevel a = dangerous \<and> double (confidence a) \<ge> double (blockThreshold cfg)
                then block
                else if threatLevel a = dangerous
                        \<or> (threatLevel a = suspicious
                            \<and> double (confidence a) \<ge> double (warnThreshold cfg))
                then warn else allow)"
  using assms by (simp add: makeDecision_def buildBlockReason_def buildWarnReason_def Let_def)

lemma makeDecision_allow:
  assumes "threatLevel a = safe
           \<or> (threatLevel a = suspicious \<and> double (confidence a) < double (warnThreshold cfg))"
  shows "makeDecision num cfg a p =
           Inr \<lparr>action = allow, reason = ''Prompt passed security analysis'',
                originalPrompt = p, analysis = a, userOverride = None\<rparr>"
  using assms by (auto simp add: makeDecision_def)

lemma example_odd_reasoning_unconvertible: "js_String num example_odd_reasoning = None"
  by (simp add: example_odd_reasoning_def)





section \<open>Properties of the merge\<close>

lemma merge_returns:
  "\<not> hasThreats l \<or> js_String num (reasoning r) \<noteq> None \<Longrightarrow>
     \<exists>m. mergeAnalysisResults num l r t = Inr m"
  by (auto simp add: mergeAnalysisResults_def Let_def)

lemma merge_throws:
  "hasThreats l \<Longrightarrow> js_String num (reasoning r) = None \<Longrightarrow>
     mergeAnalysisResults num l r t = Inl (TypeError cannot_convert)"
  by (simp add: mergeAnalysisResults_def Let_def)

lemma merge_result:
  assumes "mergeAnalysisResults num l r t = Inr m"
  shows "threatLevel m = getMoreSevereThreatLevel (suggestedThreatLevel l) (threatLevel r)"
    and "confidence m =
           (if hasThreats l \<and> threatLevel r \<noteq> safe then min 1 (double_add (confidence r) 0.1)
            else if hasThreats l \<and> threatLevel r = safe then 0.6
            else confidence r)"
  using assms
  by (auto simp add: mergeAnalysisResults_def Let_def split: option.splits if_splits)





lemma normalizeConfidence_range: "0 \<le> normalizeConfidence c \<and> normalizeConfidence c \<le> 1"
  by (auto simp add: normalizeConfidence_def split: option.splits json.splits)

lemma parse_confidence_range:
  "0 \<le> confidence (parseAnalysisResponse parse num c t)
   \<and> confidence (parseAnalysisResponse parse num c t) \<le> 1"
  using normalizeConfidence_range
  by (simp add: parseAnalysisResponse_def parse_failure_def split: option.splits)

lemma double_0_8: "double 0.8 = 3602879701896397 / 4503599627370496"
  by (subst double_in_binade[where e = "-1"]) (simp_all add: round_even_def powr_minus)

text \<open>
  C6, as the claim states it, fails, in two ways. Where the reasoning of the remote
  analysis cannot be converted to text and local detection found threats,
  \<open>mergeAnalysisResults\<close> throws and there is no merged confidence. And the sum is a sum of
  doubles: for the remote confidence 0.7 the merged confidence is the double below 0.8
  (0.7999999999999999), which is not the double 0.8; for the double below 0.4 it is the
  double 0.5, which reaches the warn threshold of the medium sensitivity, although the
  exact sum is below 0.5.
\<close>

theorem merge_confidence_counterexample:
  "mergeAnalysisResults example_num example_local
      ((example_remote dangerous 0.9)\<lparr>reasoning := example_odd_reasoning\<rparr>) 130
     = Inl (TypeError cannot_convert)
   \<and> map_sum id confidence
        (mergeAnalysisResults example_num example_local (example_remote suspicious 0.7) 130)
       = Inr (7205759403792793 / 9007199254740992)
   \<and> (7205759403792793 / 9007199254740992 :: real) < double 0.8
   \<and> (7205759403792793 / 9007199254740992 :: real) < min 1 (0.7 + 0.1)
   \<and> map_sum id confidence
        (mergeAnalysisResults example_num example_local
           (example_remote suspicious (7205759403792793 / 18014398509481984)) 130)
       = Inr 0.5
   \<and> min 1 (7205759403792793 / 18014398509481984 + 0.1 :: real) < 0.5"
proof -
  have threats: "hasThreats example_local"
    by (simp add: example_local_def)
  have a: "mergeAnalysisResults example_num example_local
      ((example_remote dangerous 0.9)\<lparr>reasoning := example_odd_reasoning\<rparr>) 130
     = Inl (TypeError cannot_convert)"
    by (rule merge_throws) (simp_all add: threats example_odd_reasoning_unconvertible)
  have b: "map_sum id confidence
        (mergeAnalysisResults example_num example_local (example_remote suspicious 0.7) 130)
       = Inr (7205759403792793 / 9007199254740992)"
    using double_add_0_7
    by (simp add: mergeAnalysisResults_def Let_def example_remote_def threats)
  have c: "map_sum id confidence
        (mergeAnalysisResults example_num example_local
           (example_remote suspicious (7205759403792793 / 18014398509481984)) 130)
       = Inr 0.5"
    using double_add_below_0_4
    by (simp add: mergeAnalysisResults_def Let_def example_remote_def threats)
  have d: "(7205759403792793 / 9007199254740992 :: real) < double 0.8"
    unfolding double_0_8 by simp
  from a b c d show ?thesis by simp
qed

text \<open>
  C6, amended. \<open>mergeAnalysisResults\<close> returns a merged analysis whenever local detection
  found no threats or the reasoning of the remote analysis converts to text. For a remote
  analysis whose confidence lies in [0,1], whenever a merged analysis is returned: when
  local detection found threats and the remote level is not safe, the merged confidence
  is the sum, in double arithmetic, of the remote confidence and 0.1, capped at 1, and
  this sum is within 1/2^51 of the exact sum; when local detection found threats and the
  remote level is safe, it is 0.6; when local detection found nothing, it is the remote
  confidence. In every case the merged confidence lies in [0,1]. The confidence of a
  parsed reply always lies in [0,1], so the merge of any reply does too.
\<close>

theorem merge_confidence:
  assumes "0 \<le> confidence r" and "confidence r \<le> 1"
  shows "(\<not> hasThreats l \<or> js_String num (reasoning r) \<noteq> None \<longrightarrow>
            (\<exists>m. mergeAnalysisResults num l r t = Inr m))
       \<and> (mergeAnalysisResults num l r t = Inr m \<longrightarrow>
            (hasThreats l \<and> threatLevel r \<noteq> safe \<longrightarrow>
               confidence m = min 1 (double_add (confidence r) 0.1)
               \<and> \<bar>double_add (confidence r) 0.1 - (confidence r + 0.1)\<bar> \<le> 1 / 2 ^ 51)
          \<and> (hasThreats l \<and> threatLevel r = safe \<longrightarrow> confidence m = 0.6)
          \<and> (\<not> hasThreats l \<longrightarrow> confidence m = confidence r)
          \<and> 0 \<le> confidence m \<and> confidence m \<le> 1)
       \<and> (mergeAnalysisResults num l (parseAnalysisResponse parse num c t') t = Inr m' \<longrightarrow>
            0 \<le> confidence m' \<and> confidence m' \<le> 1)"
proof -
  have bound: "0 \<le> confidence m0 \<and> confidence m0 \<le> 1"
    if "0 \<le> confidence r0" "confidence r0 \<le> 1" "mergeAnalysisResults num l r0 t = Inr m0"
    for r0 m0
  proof -
    have "0 \<le> double_add (confidence r0) 0.1"
      using that(1) by (simp add: double_add_nonneg)
    then show ?thesis
      using that merge_result(2)[OF that(3)] by (simp split: if_splits)
  qed
  have defined: "\<not> hasThreats l \<or> js_String num (reasoning r) \<noteq> None \<longrightarrow>
            (\<exists>m. mergeAnalysisResults num l r t = Inr m)"
    using merge_returns[of l num r t] by blast
  have cases3: "(hasThreats l \<and> threatLevel r \<noteq> safe \<longrightarrow>
               confidence m = min 1 (double_add (confidence r) 0.1)
               \<and> \<bar>double_add (confidence r) 0.1 - (confidence r + 0.1)\<bar> \<le> 1 / 2 ^ 51)
          \<and> (hasThreats l \<and> threatLevel r = safe \<longrightarrow> confidence m = 0.6)
          \<and> (\<not> hasThreats l \<longrightarrow> confidence m = confidence r)
          \<and> 0 \<le> confidence m \<and> confidence m \<le> 1"
    if ret: "mergeAnalysisResults num l r t = Inr m"
    using merge_result(2)[OF ret] bound[OF assms ret] double_add_0_1_error[OF assms]
    by simp
  have parsed: "0 \<le> confidence m' \<and> confidence m' \<le> 1"
    if "mergeAnalysisResults num l (parseAnalysisResponse parse num c t') t = Inr m'"
    using bound[OF parse_confidence_range[THEN conjunct1] parse_confidence_range[THEN conjunct2] that] .
  from defined cases3 parsed show ?thesis by blast
qed

theorem merge_confidence_witness:
  "0 \<le> confidence (example_remote suspicious 0.95)
   \<and> confidence (example_remote suspicious 0.95) \<le> 1
   \<and> hasThreats example_local
   \<and> map_sum id confidence
       (mergeAnalysisResults example_num example_local (example_remote suspicious 0.95) 130)
      = Inr 1
   \<and> map_sum id confidence
       (mergeAnalysisResults example_num example_local (example_remote suspicious 0.6) 130)
      = Inr (double 0.7)
   \<and> map_sum id confidence
       (mergeAnalysisResults example_num example_local (example_remote safe 0.9) 130)
      = Inr 0.6
   \<and> map_sum id confidence
       (mergeAnalysisResults example_num (example_local\<lparr>hasThreats := False\<rparr>)
          (example_remote safe 0.9) 130)
      = Inr 0.9"
proof -
  have conv: "js_String example_num (reasoning (example_remote lv c)) \<noteq> None" for lv c
    by (simp add: example_remote_def)
  have r: "threatLevel (example_remote lv c) = lv" "confidence (example_remote lv c) = c" for lv c
    by (simp_all add: example_remote_def)
  have threats: "hasThreats example_local" "\<not> hasThreats (example_local\<lparr>hasThreats := False\<rparr>)"
    by (simp_all add: example_local_def)
  have w: "map_sum id confidence (mergeAnalysisResults example_num l (example_remote lv c) 130)
             = Inr (if hasThreats l \<and> lv \<noteq> safe then min 1 (double_add c 0.1)
                    else if hasThreats l \<and> lv = safe then 0.6 else c)"
    if "0 \<le> c" "c \<le> 1" for l lv c
  proof -
    have c01: "0 \<le> confidence (example_remote lv c)" "confidence (example_remote lv c) \<le> 1"
      using that by (simp_all add: r)
    from merge_confidence[OF c01, where l = l and num = example_num and t = 130, THEN conjunct1]
      conv[of lv c]
    obtain m where m: "mergeAnalysisResults example_num l (example_remote lv c) 130 = Inr m"
      by blast
    from merge_confidence[OF c01, where l = l and num = example_num and t = 130 and m = m,
        THEN conjunct2, THEN conjunct1, THEN mp, OF m]
    show ?thesis by (auto simp add: m r)
  qed
  have "min 1 (double_add 0.95 0.1) = (1::real)"
    unfolding double_add_0_95 by simp
  then show ?thesis
    using w[of "0.95" example_local suspicious] w[of "0.6" example_local suspicious]
      w[of "0.9" example_local safe] w[of "0.9" "example_local\<lparr>hasThreats := False\<rparr>" safe]
      double_add_0_6
    by (simp add: threats r double_literals)
qed

section \<open>Properties of the reply validation\<close>













section \<open>Properties of the degraded mode\<close>

lemma enforce_and_store_converted:
  assumes "js_String (Number_text pf) (reasoning a) = Some tx"
  shows "\<exists>ext' d. enforce_and_store pf ps ext prompt a = Inr ext'
           \<and> makeDecision (Number_text pf) (config (gatekeeper ext)) a prompt = Inr d
           \<and> storedResults ext' = storedResults ext @ [(prompt, a, action d)]"
proof -
  from makeDecision_converted[OF assms, of "config (gatekeeper ext)" prompt] obtain d where
    d: "makeDecision (Number_text pf) (config (gatekeeper ext)) a prompt = Inr d"
    by blast
  then show ?thesis
    by (simp add: enforce_and_store_def enforceSecurityPolicy_def Let_def)
qed

lemma updateStatus_converted:
  "js_String num (reasoning a) = Some tx \<Longrightarrow> updateStatusFromAnalysis num a = None"
  by (simp add: updateStatusFromAnalysis_def)

lemma handlePromptAnalysis_converted:
  assumes "\<not> isDegradedMode ext"
    and "js_String (Number_text pf)
           (reasoning (analyzePrompt pf (remote ps) (t_try ps) (t_catch ps) prompt)) = Some tx"
  shows "\<exists>ext' d. handlePromptAnalysis pf ps ext prompt = Inr ext'
           \<and> makeDecision (Number_text pf) (config (gatekeeper ext))
                (analyzePrompt pf (remote ps) (t_try ps) (t_catch ps) prompt) prompt = Inr d
           \<and> storedResults ext' =
               storedResults ext @
                 [(prompt, analyzePrompt pf (remote ps) (t_try ps) (t_catch ps) prompt, action d)]"
proof -
  from enforce_and_store_converted[OF assms(2), of ps ext prompt] obtain ext' d where
    "enforce_and_store pf ps ext prompt
       (analyzePrompt pf (remote ps) (t_try ps) (t_catch ps) prompt) = Inr ext'"
    "makeDecision (Number_text pf) (config (gatekeeper ext))
                (analyzePrompt pf (remote ps) (t_try ps) (t_catch ps) prompt) prompt = Inr d"
    "storedResults ext' =
               storedResults ext @
                 [(prompt, analyzePrompt pf (remote ps) (t_try ps) (t_catch ps) prompt, action d)]"
    by blast
  then show ?thesis
    using assms(1) updateStatus_converted[OF assms(2)]
    by (simp add: handlePromptAnalysis_def Let_def)
qed

text \<open>
  C2, as the claim states it, fails: the extension is healthy, the connection to the
  classifier is refused. For the prompt \<open>hello\<close> local detection finds nothing and
  suggests safe, but the analysis produced is suspicious at confidence 0; for the prompt
  \<open>jailbreak\<close> local detection finds an indicator, and the confidence is 0.7.
\<close>

theorem unavailable_analysis_counterexample:
  "isDegradedMode (example_extension False) = False
   \<and> remote example_pass = Remote_failed example_refused
   \<and> detectThreatPatterns (regex_match example_platform) ''hello'' =
       \<lparr>hasThreats = False, detectedPatterns_local = [], suggestedThreatLevel = safe\<rparr>
   \<and> map_sum id storedResults
        (handlePromptAnalysis example_platform example_pass
           (example_extension False) (example_prompt ''hello'')) =
       Inr [(example_prompt ''hello'',
         \<lparr>threatLevel = suspicious, confidence = 0, detectedPatterns = [],
          reasoning = JString ''Ollama service is not running or unreachable'',
          processingTime = 30\<rparr>,
         allow)]
   \<and> hasThreats (detectThreatPatterns (regex_match example_platform) ''jailbreak'')
   \<and> map_sum id storedResults
        (handlePromptAnalysis example_platform example_pass
           (example_extension False) (example_prompt ''jailbreak'')) =
       Inr [(example_prompt ''jailbreak'',
         \<lparr>threatLevel = dangerous, confidence = 0.7,
          detectedPatterns = detectedPatterns_local example_local,
          reasoning = JString ''Local pattern detection identified threats (SLM unavailable)'',
          processingTime = 30\<rparr>,
         block)]
   \<and> threatLevel (analyzePrompt example_platform (remote example_pass) 0 30
                     (example_prompt ''hello''))
       \<noteq> suggestedThreatLevel (detectThreatPatterns (regex_match example_platform) ''hello'')
   \<and> confidence (analyzePrompt example_platform (remote example_pass) 0 30
                    (example_prompt ''hello'')) \<noteq> 0.3
   \<and> confidence (analyzePrompt example_platform (remote example_pass) 0 30
                    (example_prompt ''jailbreak'')) \<noteq> 0.6"
proof -
  have pf: "regex_match example_platform = example_match"
    by (simp add: example_platform_def)
  have e: "threatLevel (analyzePrompt example_platform (remote example_pass) 0 30
                     (example_prompt ''hello''))
       \<noteq> suggestedThreatLevel (detectThreatPatterns (regex_match example_platform) ''hello'')"
    "confidence (analyzePrompt example_platform (remote example_pass) 0 30
                    (example_prompt ''hello'')) \<noteq> 0.3"
    "confidence (analyzePrompt example_platform (remote example_pass) 0 30
                    (example_prompt ''jailbreak'')) \<noteq> 0.6"
    by (simp_all add: analyzePrompt_def Let_def pf example_pass_def example_prompt_def
          example_detect_hello example_detect_jailbreak handleAnalysisError_def
          example_refused_def example_local_def)
  have a: "map_sum id storedResults
        (handlePromptAnalysis example_platform example_pass
           (example_extension False) (example_prompt ''hello'')) =
       Inr [(example_prompt ''hello'',
         \<lparr>threatLevel = suspicious, confidence = 0, detectedPatterns = [],
          reasoning = JString ''Ollama service is not running or unreachable'',
          processingTime = 30\<rparr>,
         allow)]"
    by (simp add: handlePromptAnalysis_def enforce_and_store_def enforceSecurityPolicy_def
          updateStatusFromAnalysis_def analyzePrompt_def Let_def pf
          example_extension_def example_pass_def example_prompt_def example_detect_hello
          handleAnalysisError_def example_refused_def example_gatekeeper_def makeDecision_def
          double_literals)
  have b: "map_sum id storedResults
        (handlePromptAnalysis example_platform example_pass
           (example_extension False) (example_prompt ''jailbreak'')) =
       Inr [(example_prompt ''jailbreak'',
         \<lparr>threatLevel = dangerous, confidence = 0.7,
          detectedPatterns = detectedPatterns_local example_local,
          reasoning = JString ''Local pattern detection identified threats (SLM unavailable)'',
          processingTime = 30\<rparr>,
         block)]"
    by (simp add: handlePromptAnalysis_def enforce_and_store_def enforceSecurityPolicy_def
          updateStatusFromAnalysis_def analyzePrompt_def Let_def pf
          example_extension_def example_pass_def example_prompt_def example_detect_jailbreak
          example_gatekeeper_def makeDecision_def buildBlockReason_def example_local_def
          double_literals)
  have c: "hasThreats (detectThreatPatterns (regex_match example_platform) ''jailbreak'')"
    by (simp add: pf example_detect_jailbreak example_local_def)
  have d: "isDegradedMode (example_extension False) = False"
    "remote example_pass = Remote_failed example_refused"
    by (simp_all add: example_extension_def example_pass_def)
  from a b c d e show ?thesis by (simp add: pf example_detect_hello)
qed

text \<open>
  C2, amended. While the extension is in degraded mode, the pipeline does not consult
  the remote classifier, and the analysis it produces has the level that local detection
  suggests, the confidence 0.6 if local detection found indicators and 0.3 if it found
  none, and the reasoning \<open>Local pattern detection only (SLM unavailable)\<close>. When the
  remote call fails while the extension is not in degraded mode, \<open>analyzePrompt\<close> falls
  back by itself: with local indicators, to the level that local detection suggests, at
  confidence 0.7, with the reasoning \<open>Local pattern detection identified threats (SLM
  unavailable)\<close>; with none, to suspicious at confidence 0, with a reasoning that
  describes the error. In each of these cases the pass ends without an error, and the
  analysis is stored with the action decided for it.
\<close>

theorem unavailable_analysis:
  "(isDegradedMode ext \<longrightarrow>
      (\<exists>ext' d. handlePromptAnalysis pf ps ext prompt = Inr ext'
         \<and> makeDecision (Number_text pf) (config (gatekeeper ext))
              (degradedAnalysis (detectThreatPatterns (regex_match pf) (content prompt)))
              prompt = Inr d
         \<and> storedResults ext' =
             storedResults ext @
               [(prompt,
                 \<lparr>threatLevel =
                    suggestedThreatLevel (detectThreatPatterns (regex_match pf) (content prompt)),
                  confidence =
                    (if hasThreats (detectThreatPatterns (regex_match pf) (content prompt))
                     then 0.6 else 0.3),
                  detectedPatterns =
                    detectedPatterns_local (detectThreatPatterns (regex_match pf) (content prompt)),
                  reasoning = JString ''Local pattern detection only (SLM unavailable)'',
                  processingTime = 0\<rparr>,
                 action d)])
      \<and> handlePromptAnalysis pf (ps\<lparr>remote := other\<rparr>) ext prompt
          = handlePromptAnalysis pf ps ext prompt)
   \<and> (\<not> isDegradedMode ext \<and> remote ps = Remote_failed e
        \<and> hasThreats (detectThreatPatterns (regex_match pf) (content prompt)) \<longrightarrow>
      (\<exists>ext' d. handlePromptAnalysis pf ps ext prompt = Inr ext'
         \<and> makeDecision (Number_text pf) (config (gatekeeper ext))
              (analyzePrompt pf (remote ps) (t_try ps) (t_catch ps) prompt) prompt = Inr d
         \<and> storedResults ext' =
             storedResults ext @
               [(prompt, analyzePrompt pf (remote ps) (t_try ps) (t_catch ps) prompt, action d)])
      \<and> analyzePrompt pf (remote ps) (t_try ps) (t_catch ps) prompt =
        \<lparr>threatLevel = suggestedThreatLevel (detectThreatPatterns (regex_match pf) (content prompt)),
         confidence = 0.7,
         detectedPatterns =
           detectedPatterns_local (detectThreatPatterns (regex_match pf) (content prompt)),
         reasoning = JString ''Local pattern detection identified threats (SLM unavailable)'',
         processingTime = t_catch ps\<rparr>)
   \<and> (\<not> isDegradedMode ext \<and> remote ps = Remote_failed e
        \<and> \<not> hasThreats (detectThreatPatterns (regex_match pf) (content prompt)) \<longrightarrow>
      (\<exists>ext' d. handlePromptAnalysis pf ps ext prompt = Inr ext'
         \<and> makeDecision (Number_text pf) (config (gatekeeper ext))
              (analyzePrompt pf (remote ps) (t_try ps) (t_catch ps) prompt) prompt = Inr d
         \<and> storedResults ext' =
             storedResults ext @
               [(prompt, analyzePrompt pf (remote ps) (t_try ps) (t_catch ps) prompt, action d)])
      \<and> analyzePrompt pf (remote ps) (t_try ps) (t_catch ps) prompt = handleAnalysisError e (t_catch ps)
      \<and> threatLevel (handleAnalysisError e (t_catch ps)) = suspicious
      \<and> confidence (handleAnalysisError e (t_catch ps)) = 0
      \<and> detectedPatterns (handleAnalysisError e (t_catch ps)) = [])"
proof -
  let ?local = "detectThreatPatterns (regex_match pf) (content prompt)"
  let ?a = "analyzePrompt pf (remote ps) (t_try ps) (t_catch ps) prompt"
  have deg_conv: "js_String (Number_text pf) (reasoning (degradedAnalysis ?local))
                    = Some ''Local pattern detection only (SLM unavailable)''"
    by (simp add: degradedAnalysis_def)
  have deg: "isDegradedMode ext \<longrightarrow>
      (\<exists>ext' d. handlePromptAnalysis pf ps ext prompt = Inr ext'
         \<and> makeDecision (Number_text pf) (config (gatekeeper ext)) (degradedAnalysis ?local)
              prompt = Inr d
         \<and> storedResults ext' =
             storedResults ext @
               [(prompt,
                 \<lparr>threatLevel = suggestedThreatLevel ?local,
                  confidence = (if hasThreats ?local then 0.6 else 0.3),
                  detectedPatterns = detectedPatterns_local ?local,
                  reasoning = JString ''Local pattern detection only (SLM unavailable)'',
                  processingTime = 0\<rparr>,
                 action d)])"
    using enforce_and_store_converted[OF deg_conv, of ps ext prompt]
    by (simp add: handlePromptAnalysis_def handleDegradedModeAnalysis_def degradedAnalysis_def)
  have skip: "isDegradedMode ext \<longrightarrow>
      handlePromptAnalysis pf (ps\<lparr>remote := other\<rparr>) ext prompt = handlePromptAnalysis pf ps ext prompt"
    by (simp add: handlePromptAnalysis_def handleDegradedModeAnalysis_def enforce_and_store_def)
  have with_threats: "remote ps = Remote_failed e \<and> hasThreats ?local \<longrightarrow>
      ?a =
        \<lparr>threatLevel = suggestedThreatLevel ?local, confidence = 0.7,
         detectedPatterns = detectedPatterns_local ?local,
         reasoning = JString ''Local pattern detection identified threats (SLM unavailable)'',
         processingTime = t_catch ps\<rparr>"
    by (simp add: analyzePrompt_def Let_def)
  have without: "remote ps = Remote_failed e \<and> \<not> hasThreats ?local \<longrightarrow>
      ?a = handleAnalysisError e (t_catch ps)"
    by (simp add: analyzePrompt_def Let_def)
  have failed_conv: "remote ps = Remote_failed e \<longrightarrow>
      (\<exists>tx. js_String (Number_text pf) (reasoning ?a) = Some tx)"
    by (simp add: analyzePrompt_def handleAnalysisError_def Let_def)
  have stored: "\<not> isDegradedMode ext \<and> remote ps = Remote_failed e \<longrightarrow>
      (\<exists>ext' d. handlePromptAnalysis pf ps ext prompt = Inr ext'
         \<and> makeDecision (Number_text pf) (config (gatekeeper ext)) ?a prompt = Inr d
         \<and> storedResults ext' = storedResults ext @ [(prompt, ?a, action d)])"
    using failed_conv handlePromptAnalysis_converted[of ext pf ps prompt] by blast
  have err: "threatLevel (handleAnalysisError e (t_catch ps)) = suspicious"
    "confidence (handleAnalysisError e (t_catch ps)) = 0"
    "detectedPatterns (handleAnalysisError e (t_catch ps)) = []"
    by (simp_all add: handleAnalysisError_def Let_def)
  show ?thesis
    apply (intro conjI impI)
    using deg skip stored with_threats without err by blast+
qed

theorem unavailable_analysis_witness:
  "isDegradedMode (example_extension True)
   \<and> map_sum id storedResults
        (handlePromptAnalysis example_platform example_pass
           (example_extension True) (example_prompt ''jailbreak'')) =
       Inr [(example_prompt ''jailbreak'',
         \<lparr>threatLevel = dangerous, confidence = 0.6,
          detectedPatterns = detectedPatterns_local example_local,
          reasoning = JString ''Local pattern detection only (SLM unavailable)'',
          processingTime = 0\<rparr>,
         warn)]
   \<and> map_sum id storedResults
        (handlePromptAnalysis example_platform example_pass
           (example_extension True) (example_prompt ''hello'')) =
       Inr [(example_prompt ''hello'',
         \<lparr>threatLevel = safe, confidence = 0.3, detectedPatterns = [],
          reasoning = JString ''Local pattern detection only (SLM unavailable)'',
          processingTime = 0\<rparr>,
         allow)]
   \<and> analyzePrompt example_platform (remote example_pass) (t_try example_pass)
         (t_catch example_pass) (example_prompt ''jailbreak'') =
       \<lparr>threatLevel = dangerous, confidence = 0.7,
        detectedPatterns = detectedPatterns_local example_local,
        reasoning = JString ''Local pattern detection identified threats (SLM unavailable)'',
        processingTime = 30\<rparr>
   \<and> confidence (analyzePrompt example_platform (remote example_pass) (t_try example_pass)
         (t_catch example_pass) (example_prompt ''hello'')) = 0"
proof -
  have pf: "regex_match example_platform = example_match"
    "Number_text example_platform = example_num"
    by (simp_all add: example_platform_def)
  have c: "content (example_prompt s) = s" for s
    by (simp add: example_prompt_def)
  have dg: "isDegradedMode (example_extension True)" "\<not> isDegradedMode (example_extension False)"
    "storedResults (example_extension b) = []"
    "config (gatekeeper (example_extension b)) =
       \<lparr>blockThreshold = 0.7, warnThreshold = 0.5, enableUserOverride = True, enableAuditLog = True\<rparr>"
    for b
    by (simp_all add: example_extension_def example_gatekeeper_def)
  have rm: "remote example_pass = Remote_failed example_refused" "t_catch example_pass = 30"
    by (simp_all add: example_pass_def)
  note j = unavailable_analysis[where pf = example_platform and ps = example_pass
             and prompt = "example_prompt ''jailbreak''" and e = example_refused]
  note h = unavailable_analysis[where pf = example_platform and ps = example_pass
             and prompt = "example_prompt ''hello''" and e = example_refused]
  have j1: "map_sum id storedResults
        (handlePromptAnalysis example_platform example_pass
           (example_extension True) (example_prompt ''jailbreak'')) =
       Inr [(example_prompt ''jailbreak'',
         \<lparr>threatLevel = dangerous, confidence = 0.6,
          detectedPatterns = detectedPatterns_local example_local,
          reasoning = JString ''Local pattern detection only (SLM unavailable)'',
          processingTime = 0\<rparr>,
         warn)]"
  proof -
    from j[where ext = "example_extension True", THEN conjunct1, THEN mp, OF dg(1), THEN conjunct1]
    obtain ext' d where
      r: "handlePromptAnalysis example_platform example_pass (example_extension True)
            (example_prompt ''jailbreak'') = Inr ext'"
      and d: "makeDecision (Number_text example_platform)
                (config (gatekeeper (example_extension True)))
                (degradedAnalysis (detectThreatPatterns (regex_match example_platform)
                   (content (example_prompt ''jailbreak'')))) (example_prompt ''jailbreak'') = Inr d"
      and s: "storedResults ext' =
             storedResults (example_extension True) @
               [(example_prompt ''jailbreak'',
                 \<lparr>threatLevel =
                    suggestedThreatLevel (detectThreatPatterns (regex_match example_platform)
                       (content (example_prompt ''jailbreak''))),
                  confidence =
                    (if hasThreats (detectThreatPatterns (regex_match example_platform)
                          (content (example_prompt ''jailbreak'')))
                     then 0.6 else 0.3),
                  detectedPatterns =
                    detectedPatterns_local (detectThreatPatterns (regex_match example_platform)
                       (content (example_prompt ''jailbreak''))),
                  reasoning = JString ''Local pattern detection only (SLM unavailable)'',
                  processingTime = 0\<rparr>,
                 action d)]"
      by blast
    from d have "action d = warn"
      by (auto simp add: pf c dg example_detect_jailbreak example_local_def makeDecision_def
            buildWarnReason_def degradedAnalysis_def double_literals Let_def)
    with r s show ?thesis
      by (simp add: pf c dg example_detect_jailbreak example_local_def)
  qed
  have h1: "map_sum id storedResults
        (handlePromptAnalysis example_platform example_pass
           (example_extension True) (example_prompt ''hello'')) =
       Inr [(example_prompt ''hello'',
         \<lparr>threatLevel = safe, confidence = 0.3, detectedPatterns = [],
          reasoning = JString ''Local pattern detection only (SLM unavailable)'',
          processingTime = 0\<rparr>,
         allow)]"
  proof -
    from h[where ext = "example_extension True", THEN conjunct1, THEN mp, OF dg(1), THEN conjunct1]
    obtain ext' d where
      r: "handlePromptAnalysis example_platform example_pass (example_extension True)
            (example_prompt ''hello'') = Inr ext'"
      and d: "makeDecision (Number_text example_platform)
                (config (gatekeeper (example_extension True)))
                (degradedAnalysis (detectThreatPatterns (regex_match example_platform)
                   (content (example_prompt ''hello'')))) (example_prompt ''hello'') = Inr d"
      and s: "storedResults ext' =
             storedResults (example_extension True) @
               [(example_prompt ''hello'',
                 \<lparr>threatLevel =
                    suggestedThreatLevel (detectThreatPatterns (regex_match example_platform)
                       (content (example_prompt ''hello''))),
                  confidence =
                    (if hasThreats (detectThreatPatterns (regex_match example_platform)
                          (content (example_prompt ''hello'')))
                     then 0.6 else 0.3),
                  detectedPatterns =
                    detectedPatterns_local (detectThreatPatterns (regex_match example_platform)
                       (content (example_prompt ''hello''))),
                  reasoning = JString ''Local pattern detection only (SLM unavailable)'',
                  processingTime = 0\<rparr>,
                 action d)]"
      by blast
    from d have "action d = allow"
      by (auto simp add: pf c dg example_detect_hello makeDecision_def degradedAnalysis_def)
    with r s show ?thesis
      by (simp add: pf c dg example_detect_hello)
  qed
  have j2: "analyzePrompt example_platform (remote example_pass) (t_try example_pass)
         (t_catch example_pass) (example_prompt ''jailbreak'') =
       \<lparr>threatLevel = dangerous, confidence = 0.7,
        detectedPatterns = detectedPatterns_local example_local,
        reasoning = JString ''Local pattern detection identified threats (SLM unavailable)'',
        processingTime = 30\<rparr>"
    using j[where ext = "example_extension False", THEN conjunct2, THEN conjunct1] dg(2) rm
    by (simp add: pf c example_detect_jailbreak example_local_def)
  have h2: "confidence (analyzePrompt example_platform (remote example_pass) (t_try example_pass)
         (t_catch example_pass) (example_prompt ''hello'')) = 0"
    using h[where ext = "example_extension False", THEN conjunct2, THEN conjunct2] dg(2) rm
    by (simp add: pf c example_detect_hello)
  from dg(1) j1 h1 j2 h2 show ?thesis by blast
qed

section \<open>Properties of the user override\<close>

lemma filter_drop_le: "length (filter P (drop n xs)) \<le> length (filter P xs)"
proof -
  have "length (filter P xs) = length (filter P (take n xs)) + length (filter P (drop n xs))"
    by (metis append_take_drop_id filter_append length_append)
  then show ?thesis by simp
qed

lemma override_count_log:
  "override_count (logSecurityEvent gk ev) \<le>
     override_count gk + (if eventType ev = ev_override \<and> enableAuditLog (config gk) then 1 else 0)"
proof (cases "enableAuditLog (config gk)")
  case False
  then show ?thesis by (simp add: logSecurityEvent_def)
next
  case True
  have "length (filter (\<lambda>e. eventType e = ev_override)
                 (drop (length (auditLog gk @ [ev]) - maxAuditLogSize) (auditLog gk @ [ev])))
        \<le> length (filter (\<lambda>e. eventType e = ev_override) (auditLog gk @ [ev]))"
    by (rule filter_drop_le)
  then show ?thesis
    using True by (auto simp add: logSecurityEvent_def override_count_def Let_def slice_last_def)
qed

lemma override_count_details: "override_count (showDecisionDetails gk d) = override_count gk"
  by (simp add: showDecisionDetails_def override_count_def)

lemma mapDecision_not_override: "mapDecisionToEventType a \<noteq> ev_override"
  by (cases a) simp_all

lemma logSecurityEvent_config: "config (logSecurityEvent gk ev) = config gk"
  by (simp add: logSecurityEvent_def Let_def)

lemma example_block_decision_made:
  "makeDecision example_num (config (example_gatekeeper True)) example_analysis
     (example_prompt ''jailbreak'') = Inr example_block_decision"
  by (simp add: example_block_decision_def makeDecision_def example_gatekeeper_def
        example_analysis_def buildBlockReason_def new_Set_def example_local_def double_literals)

text \<open>
  C3, as the claim states it, fails: with audit logging switched off in the
  configuration, a confirmed override of a blocked request returns the decision to allow
  and emits no audit event.
\<close>

theorem handleUserOverride_counterexample:
  "action example_block_decision = block
   \<and> enableAuditLog (config (example_gatekeeper False)) = False
   \<and> fst (handleUserOverride (sha256 example_platform) (stamp2 example_pass)
            (Some ''Yes, I understand the risks'') (example_gatekeeper False) example_block_decision)
       = Some \<lparr>action = allow,
               reason = ''User override: Detected patterns: rule_bypass. Injection attempt'',
               originalPrompt = example_prompt ''jailbreak'', analysis = example_analysis,
               userOverride = Some True\<rparr>
   \<and> auditLog (snd (handleUserOverride (sha256 example_platform) (stamp2 example_pass)
            (Some ''Yes, I understand the risks'') (example_gatekeeper False) example_block_decision))
       = []
   \<and> override_count (snd (handleUserOverride (sha256 example_platform) (stamp2 example_pass)
            (Some ''Yes, I understand the risks'') (example_gatekeeper False) example_block_decision))
       = 0"
  by (simp add: handleUserOverride_def logSecurityEvent_def example_gatekeeper_def Let_def
        example_block_decision_def override_count_def)

text \<open>
  C3, amended. \<open>handleUserOverride\<close> grants nothing without the explicit confirmation:
  it returns a decision exactly when the answer to the confirmation dialog is \<open>Yes, I
  understand the risks\<close>. On any other answer it returns \<open>null\<close> and leaves the
  gatekeeper's state as it was. On confirmation it returns the decision with the action
  allow, the override flag true and the reason prefixed with \<open>User override:\<close>; when audit
  logging is enabled it appends an event of kind override to the audit log, and when
  audit logging is disabled it emits no event and leaves the state as it was. The method
  does not check the action of the decision it is given. Whenever
  \<open>enforceSecurityPolicy\<close> returns, the number of override events has grown only for a
  decision to block, with user override enabled, the override button chosen and the
  confirmation given; in that case, with audit logging enabled, the override event is
  the second event of the pass, after the event of kind block. Where \<open>makeDecision\<close>
  throws, \<open>enforceSecurityPolicy\<close> throws the same error.
\<close>

theorem handleUserOverride_confirmation:
  "(fst (handleUserOverride sha st cf gk d) \<noteq> None \<longleftrightarrow> cf = Some ''Yes, I understand the risks'')
   \<and> (cf \<noteq> Some ''Yes, I understand the risks'' \<longrightarrow> handleUserOverride sha st cf gk d = (None, gk))
   \<and> (cf = Some ''Yes, I understand the risks'' \<longrightarrow>
        fst (handleUserOverride sha st cf gk d) =
          Some (d\<lparr>action := allow, userOverride := Some True,
                  reason := ''User override: '' @ reason d\<rparr>))
   \<and> (cf = Some ''Yes, I understand the risks'' \<and> enableAuditLog (config gk) \<longrightarrow>
        auditLog (snd (handleUserOverride sha st cf gk d)) \<noteq> []
        \<and> last (auditLog (snd (handleUserOverride sha st cf gk d))) =
            \<lparr>id_event = stamp_id st, timestamp_event = stamp_time st, eventType = ev_override,
             promptHash = sha (content (originalPrompt d)),
             threatLevel_event = threatLevel (analysis d),
             confidence_event = confidence (analysis d), decision = allow,
             userOverride_event = Some True,
             processingTime_event = processingTime (analysis d)\<rparr>)
   \<and> (cf = Some ''Yes, I understand the risks'' \<and> \<not> enableAuditLog (config gk) \<longrightarrow>
        snd (handleUserOverride sha st cf gk d) = gk)
   \<and> (enforceSecurityPolicy num sha st1 st2 ui gk a p = Inr (d', gk')
        \<and> override_count gk' > override_count gk \<longrightarrow>
        action d' = block
        \<and> enableUserOverride (config gk) \<and> enableAuditLog (config gk)
        \<and> selection ui = Some ''Override (Proceed Anyway)''
        \<and> confirmation ui = Some ''Yes, I understand the risks'')
   \<and> (makeDecision num (config gk) a p = Inr d' \<and> action d' = block
        \<and> enableUserOverride (config gk) \<and> enableAuditLog (config gk)
        \<and> selection ui = Some ''Override (Proceed Anyway)''
        \<and> confirmation ui = Some ''Yes, I understand the risks''
        \<and> length (auditLog gk) + 2 \<le> maxAuditLogSize \<longrightarrow>
        (\<exists>gk2. enforceSecurityPolicy num sha st1 st2 ui gk a p = Inr (d', gk2)
           \<and> map eventType (auditLog gk2) =
               map eventType (auditLog gk) @ [ev_block, ev_override]))
   \<and> (makeDecision num (config gk) a p = Inl e \<longrightarrow>
        enforceSecurityPolicy num sha st1 st2 ui gk a p = Inl e)"
proof -
  let ?yes = "Some ''Yes, I understand the risks''"
  have granted: "fst (handleUserOverride sha st cf gk d) \<noteq> None \<longleftrightarrow> cf = ?yes"
    by (simp add: handleUserOverride_def Let_def)
  have refused: "cf \<noteq> ?yes \<longrightarrow> handleUserOverride sha st cf gk d = (None, gk)"
    by (simp add: handleUserOverride_def)
  have result: "cf = ?yes \<longrightarrow>
        fst (handleUserOverride sha st cf gk d) =
          Some (d\<lparr>action := allow, userOverride := Some True,
                  reason := ''User override: '' @ reason d\<rparr>)"
    by (simp add: handleUserOverride_def Let_def)
  have logged: "cf = ?yes \<and> enableAuditLog (config gk) \<longrightarrow>
        auditLog (snd (handleUserOverride sha st cf gk d)) \<noteq> []
        \<and> last (auditLog (snd (handleUserOverride sha st cf gk d))) =
            \<lparr>id_event = stamp_id st, timestamp_event = stamp_time st, eventType = ev_override,
             promptHash = sha (content (originalPrompt d)),
             threatLevel_event = threatLevel (analysis d),
             confidence_event = confidence (analysis d), decision = allow,
             userOverride_event = Some True,
             processingTime_event = processingTime (analysis d)\<rparr>"
    by (simp add: handleUserOverride_def logSecurityEvent_def Let_def slice_last_def
          maxAuditLogSize_def)
  have silent: "cf = ?yes \<and> \<not> enableAuditLog (config gk) \<longrightarrow>
        snd (handleUserOverride sha st cf gk d) = gk"
    by (simp add: handleUserOverride_def logSecurityEvent_def Let_def)
  have only_block:
    "enforceSecurityPolicy num sha st1 st2 ui gk a p = Inr (d', gk')
        \<and> override_count gk' > override_count gk \<longrightarrow>
        action d' = block
        \<and> enableUserOverride (config gk) \<and> enableAuditLog (config gk)
        \<and> selection ui = Some ''Override (Proceed Anyway)''
        \<and> confirmation ui = ?yes"
  proof (intro impI, elim conjE)
    assume ret: "enforceSecurityPolicy num sha st1 st2 ui gk a p = Inr (d', gk')"
      and more: "override_count gk' > override_count gk"
    let ?e1 = "\<lparr>id_event = stamp_id st1, timestamp_event = stamp_time st1,
                eventType = mapDecisionToEventType (action d'), promptHash = sha (content p),
                threatLevel_event = threatLevel a, confidence_event = confidence a,
                decision = action d', userOverride_event = None,
                processingTime_event = processingTime a\<rparr>"
    let ?gk1 = "logSecurityEvent gk ?e1"
    from ret have made: "makeDecision num (config gk) a p = Inr d'"
      and run: "gk' = notifyUser sha st2 ui ?gk1 d'"
      by (auto simp add: enforceSecurityPolicy_def Let_def split: sum.splits)
    have first: "override_count ?gk1 \<le> override_count gk"
      using override_count_log[of gk ?e1] mapDecision_not_override[of "action d'"] by simp
    have cfg: "config ?gk1 = config gk" by (rule logSecurityEvent_config)
    have other: "override_count (notifyUser sha st2 ui ?gk1 d') \<le> override_count ?gk1"
      if "\<not> (action d' = block \<and> enableUserOverride (config gk) \<and> enableAuditLog (config gk)
              \<and> selection ui = Some ''Override (Proceed Anyway)'' \<and> confirmation ui = ?yes)"
      using that cfg
      by (cases "action d'")
         (auto simp add: notifyUser_def showBlockNotification_def showWarnNotification_def
            override_count_details handleUserOverride_def logSecurityEvent_def Let_def)
    show "action d' = block
        \<and> enableUserOverride (config gk) \<and> enableAuditLog (config gk)
        \<and> selection ui = Some ''Override (Proceed Anyway)''
        \<and> confirmation ui = ?yes"
      using first other more unfolding run by fastforce
  qed
  have second: "makeDecision num (config gk) a p = Inr d' \<and> action d' = block
        \<and> enableUserOverride (config gk) \<and> enableAuditLog (config gk)
        \<and> selection ui = Some ''Override (Proceed Anyway)''
        \<and> confirmation ui = ?yes
        \<and> length (auditLog gk) + 2 \<le> maxAuditLogSize \<longrightarrow>
        (\<exists>gk2. enforceSecurityPolicy num sha st1 st2 ui gk a p = Inr (d', gk2)
           \<and> map eventType (auditLog gk2) =
               map eventType (auditLog gk) @ [ev_block, ev_override])"
    by (simp add: enforceSecurityPolicy_def Let_def notifyUser_def showBlockNotification_def
          handleUserOverride_def logSecurityEvent_def)
  have thrown: "makeDecision num (config gk) a p = Inl e \<longrightarrow>
        enforceSecurityPolicy num sha st1 st2 ui gk a p = Inl e"
    by (simp add: enforceSecurityPolicy_def)
  show ?thesis
    apply (intro conjI)
    using granted refused result logged silent only_block second thrown by blast+
qed

theorem handleUserOverride_confirmation_witness:
  "handleUserOverride (sha256 example_platform) (stamp2 example_pass) (Some ''Cancel'')
      (example_gatekeeper True) example_block_decision = (None, example_gatekeeper True)
   \<and> handleUserOverride (sha256 example_platform) (stamp2 example_pass) None
      (example_gatekeeper True) example_block_decision = (None, example_gatekeeper True)
   \<and> fst (handleUserOverride (sha256 example_platform) (stamp2 example_pass)
            (Some ''Yes, I understand the risks'') (example_gatekeeper True) example_block_decision)
       = Some \<lparr>action = allow,
               reason = ''User override: Detected patterns: rule_bypass. Injection attempt'',
               originalPrompt = example_prompt ''jailbreak'', analysis = example_analysis,
               userOverride = Some True\<rparr>
   \<and> map eventType (auditLog (snd (handleUserOverride (sha256 example_platform)
            (stamp2 example_pass) (Some ''Yes, I understand the risks'')
            (example_gatekeeper True) example_block_decision))) = [ev_override]
   \<and> snd (handleUserOverride (sha256 example_platform) (stamp2 example_pass)
            (Some ''Yes, I understand the risks'') (example_gatekeeper False) example_block_decision)
       = example_gatekeeper False
   \<and> map_sum id (\<lambda>r. (fst r, map eventType (auditLog (snd r))))
        (enforceSecurityPolicy example_num (sha256 example_platform)
            (stamp1 example_pass) (stamp2 example_pass) example_override
            (example_gatekeeper True) example_analysis (example_prompt ''jailbreak''))
       = Inr (example_block_decision, [ev_block, ev_override])"
proof -
  let ?sha = "sha256 example_platform"
  let ?st = "stamp2 example_pass"
  let ?yes = "Some ''Yes, I understand the risks''"
  note no1 = handleUserOverride_confirmation[where sha = ?sha and st = ?st
      and cf = "Some ''Cancel''" and gk = "example_gatekeeper True" and d = example_block_decision]
  note no2 = handleUserOverride_confirmation[where sha = ?sha and st = ?st
      and cf = None and gk = "example_gatekeeper True" and d = example_block_decision]
  note yes_on = handleUserOverride_confirmation[where sha = ?sha and st = ?st
      and cf = ?yes and gk = "example_gatekeeper True" and d = example_block_decision
      and ui = example_override and a = example_analysis and p = "example_prompt ''jailbreak''"
      and ?st1.0 = "stamp1 example_pass" and ?st2.0 = "stamp2 example_pass"
      and num = example_num and d' = example_block_decision]
  note yes_off = handleUserOverride_confirmation[where sha = ?sha and st = ?st
      and cf = ?yes and gk = "example_gatekeeper False" and d = example_block_decision]
  have cfg: "enableAuditLog (config (example_gatekeeper b)) = b"
    "enableUserOverride (config (example_gatekeeper b))"
    "auditLog (example_gatekeeper b) = []" for b
    by (simp_all add: example_gatekeeper_def)
  have blk: "action example_block_decision = block"
    by (simp add: example_block_decision_def)
  have ui: "selection example_override = Some ''Override (Proceed Anyway)''"
    "confirmation example_override = ?yes"
    by (simp_all add: example_override_def)
  have c1: "handleUserOverride ?sha ?st (Some ''Cancel'') (example_gatekeeper True)
              example_block_decision = (None, example_gatekeeper True)"
    using no1 by simp
  have c2: "handleUserOverride ?sha ?st None (example_gatekeeper True)
              example_block_decision = (None, example_gatekeeper True)"
    using no2 by simp
  have c3: "fst (handleUserOverride ?sha ?st ?yes (example_gatekeeper True) example_block_decision)
       = Some \<lparr>action = allow,
               reason = ''User override: Detected patterns: rule_bypass. Injection attempt'',
               originalPrompt = example_prompt ''jailbreak'', analysis = example_analysis,
               userOverride = Some True\<rparr>"
    using yes_on by (simp add: example_block_decision_def)
  have c4: "map eventType (auditLog (snd (handleUserOverride ?sha ?st ?yes
            (example_gatekeeper True) example_block_decision))) = [ev_override]"
    by (simp add: handleUserOverride_def logSecurityEvent_def Let_def example_gatekeeper_def
          maxAuditLogSize_def)
  have c5: "snd (handleUserOverride ?sha ?st ?yes (example_gatekeeper False) example_block_decision)
       = example_gatekeeper False"
    using yes_off cfg(1)[of False] by simp
  have c6: "map_sum id (\<lambda>r. (fst r, map eventType (auditLog (snd r))))
        (enforceSecurityPolicy example_num ?sha
            (stamp1 example_pass) ?st example_override
            (example_gatekeeper True) example_analysis (example_prompt ''jailbreak''))
       = Inr (example_block_decision, [ev_block, ev_override])"
  proof -
    have "length (auditLog (example_gatekeeper True)) + 2 \<le> maxAuditLogSize"
      by (simp add: cfg maxAuditLogSize_def)
    with yes_on[THEN conjunct2, THEN conjunct2, THEN conjunct2, THEN conjunct2, THEN conjunct2,
        THEN conjunct2, THEN conjunct1]
      example_block_decision_made blk ui cfg[of True]
    obtain gk2 where
      "enforceSecurityPolicy example_num ?sha (stamp1 example_pass) ?st example_override
         (example_gatekeeper True) example_analysis (example_prompt ''jailbreak'')
        = Inr (example_block_decision, gk2)"
      "map eventType (auditLog gk2) =
         map eventType (auditLog (example_gatekeeper True)) @ [ev_block, ev_override]"
      by blast
    then show ?thesis by (simp add: cfg)
  qed
  from c1 c2 c3 c4 c5 c6 show ?thesis by blast
qed

text \<open>
  C10. \<open>handleUserOverride\<close> does not change the decision object it is given. The
  overridden decision is a new object: after the call every object of the store is what
  it was, the decision passed in among them (a blocked decision still has the action
  block, no override flag and its reason), and on confirmation the result is a reference
  that did not exist before, to the decision with the action allow.
\<close>

theorem handleUserOverride_no_mutation:
  assumes "deref h r = Some d"
  shows "\<exists>res gk' h'.
           handleUserOverride_ref sha st cf gk h r = Inr (res, gk', h')
           \<and> deref h' r = Some d
           \<and> take (length h) h' = h
           \<and> (cf \<noteq> Some ''Yes, I understand the risks'' \<longrightarrow> res = None \<and> h' = h \<and> gk' = gk)
           \<and> (cf = Some ''Yes, I understand the risks'' \<longrightarrow>
                res = Some (length h) \<and> length h \<noteq> r \<and> deref h (length h) = None
                \<and> deref h' (length h) =
                    Some (d\<lparr>action := allow, userOverride := Some True,
                            reason := ''User override: '' @ reason d\<rparr>))"
proof (cases "cf = Some ''Yes, I understand the risks''")
  case True
  from assms have r: "r < length h" and d: "h ! r = d"
    by (auto simp add: deref_def split: if_splits)
  let ?d' = "d\<lparr>action := allow, userOverride := Some True, reason := ''User override: '' @ reason d\<rparr>"
  obtain gk' where run: "handleUserOverride sha st cf gk d = (Some ?d', gk')"
    using True by (simp add: handleUserOverride_def Let_def)
  have "handleUserOverride_ref sha st cf gk h r = Inr (Some (length h), gk', h @ [?d'])"
    using assms run by (simp add: handleUserOverride_ref_def)
  moreover have "deref (h @ [?d']) r = Some d"
    using r d by (simp add: deref_def nth_append)
  moreover have "deref (h @ [?d']) (length h) = Some ?d'" and "deref h (length h) = None"
    by (simp_all add: deref_def)
  ultimately show ?thesis using True r by auto
next
  case False
  then have "handleUserOverride sha st cf gk d = (None, gk)"
    by (simp add: handleUserOverride_def)
  then have "handleUserOverride_ref sha st cf gk h r = Inr (None, gk, h)"
    using assms by (simp add: handleUserOverride_ref_def)
  then show ?thesis using False assms by simp
qed

theorem handleUserOverride_no_mutation_witness:
  "deref [example_block_decision] 0 = Some example_block_decision
   \<and> (\<exists>gk'. handleUserOverride_ref (sha256 example_platform) (stamp2 example_pass)
              (Some ''Yes, I understand the risks'') (example_gatekeeper True)
              [example_block_decision] 0
            = Inr (Some 1, gk',
                   [\<lparr>action = block, reason = ''Detected patterns: rule_bypass. Injection attempt'',
                     originalPrompt = example_prompt ''jailbreak'', analysis = example_analysis,
                     userOverride = None\<rparr>,
                    \<lparr>action = allow,
                     reason = ''User override: Detected patterns: rule_bypass. Injection attempt'',
                     originalPrompt = example_prompt ''jailbreak'', analysis = example_analysis,
                     userOverride = Some True\<rparr>]))"
proof -
  have start: "deref [example_block_decision] 0 = Some example_block_decision"
    by (simp add: deref_def)
  from handleUserOverride_no_mutation[OF start, where sha = "sha256 example_platform"
      and st = "stamp2 example_pass" and cf = "Some ''Yes, I understand the risks''"
      and gk = "example_gatekeeper True"]
  obtain res gk' h' where
    run: "handleUserOverride_ref (sha256 example_platform) (stamp2 example_pass)
              (Some ''Yes, I understand the risks'') (example_gatekeeper True)
              [example_block_decision] 0 = Inr (res, gk', h')"
    and old: "take 1 h' = [example_block_decision]"
    and res: "res = Some 1"
    and new: "deref h' 1 = Some (example_block_decision\<lparr>action := allow, userOverride := Some True,
                            reason := ''User override: '' @ reason example_block_decision\<rparr>)"
    by auto
  have len: "length h' = 2"
    using run start by (auto simp add: handleUserOverride_ref_def handleUserOverride_def Let_def
        split: if_splits)
  from len obtain x y where h': "h' = [x, y]"
    by (cases h'; cases "tl h'") auto
  from old new h' have "x = example_block_decision"
    and "y = example_block_decision\<lparr>action := allow, userOverride := Some True,
                            reason := ''User override: '' @ reason example_block_decision\<rparr>"
    by (simp_all add: deref_def)
  with run res h' start show ?thesis
    by (simp add: example_block_decision_def)
qed

section \<open>Properties of the admission queue\<close>

text \<open>
  C8, as the claim states it, fails: a submission whose cancellation token has fired
  already, arriving at a full queue, is rejected with \<open>Cancelled\<close>, not with the capacity
  error, and the drop counter stays as it was.
\<close>

theorem queuePrompt_counterexample:
  "length (requestQueue example_full_interceptor) = 100
   \<and> performanceMonitor example_full_interceptor = Some (example_monitor 100)
   \<and> canAcceptRequest (example_monitor 100) = False
   \<and> settled (queuePrompt example_handler example_clock 7 200 (Some True)
                example_full_interceptor (example_prompt ''hello''))
       = [(200, Rejected (Error ''Cancelled''))]
   \<and> map_option (\<lambda>pm. droppedRequests (queueStats pm))
        (performanceMonitor (queuePrompt example_handler example_clock 7 200 (Some True)
                               example_full_interceptor (example_prompt ''hello'')))
       = Some 0"
  by (simp add: queuePrompt_def example_full_interceptor_def example_monitor_def
        canAcceptRequest_def)

text \<open>
  C8, amended. For every submission whose cancellation token has not fired already:
  when a performance monitor is attached and the queue size it tracks has reached its
  configured maximum, \<open>queuePrompt\<close> queues nothing, rejects the submitter's promise within
  the call with the error \<open>Queue capacity exceeded\<close>, and increments the drop counter by
  one; when the monitor accepts (or none is attached) and the interceptor's own queue
  holds its maximum of 100 requests, \<open>queuePrompt\<close> queues nothing and rejects the promise
  with the same error. A submission whose token has fired already is rejected with
  \<open>Cancelled\<close> before any capacity check, and nothing else changes.
\<close>

theorem queuePrompt_overflow:
  "(token \<noteq> Some True \<and> performanceMonitor itc = Some pm
      \<and> int (currentSize (queueStats pm)) \<ge> maxQueueSize_config pm \<longrightarrow>
        queuePrompt h clock now p token itc prompt =
          itc\<lparr>performanceMonitor := Some (recordDroppedRequest pm),
              settled := settled itc @ [(p, Rejected (Error ''Queue capacity exceeded''))]\<rparr>
        \<and> requestQueue (queuePrompt h clock now p token itc prompt) = requestQueue itc
        \<and> droppedRequests (queueStats (recordDroppedRequest pm)) = droppedRequests (queueStats pm) + 1)
   \<and> (token \<noteq> Some True
      \<and> (performanceMonitor itc = None
          \<or> (\<exists>pm. performanceMonitor itc = Some pm \<and> canAcceptRequest pm))
      \<and> length (requestQueue itc) \<ge> maxQueueSize \<longrightarrow>
        settled (queuePrompt h clock now p token itc prompt) =
          settled itc @ [(p, Rejected (Error ''Queue capacity exceeded''))]
        \<and> requestQueue (queuePrompt h clock now p token itc prompt) = requestQueue itc)
   \<and> (token = Some True \<longrightarrow>
        queuePrompt h clock now p token itc prompt =
          itc\<lparr>settled := settled itc @ [(p, Rejected (Error ''Cancelled''))]\<rparr>)
   \<and> maxQueueSize = 100"
proof -
  have monitor_full: "token \<noteq> Some True \<and> performanceMonitor itc = Some pm
      \<and> int (currentSize (queueStats pm)) \<ge> maxQueueSize_config pm \<longrightarrow>
        queuePrompt h clock now p token itc prompt =
          itc\<lparr>performanceMonitor := Some (recordDroppedRequest pm),
              settled := settled itc @ [(p, Rejected (Error ''Queue capacity exceeded''))]\<rparr>
        \<and> requestQueue (queuePrompt h clock now p token itc prompt) = requestQueue itc"
    by (simp add: queuePrompt_def canAcceptRequest_def)
  have counted:
    "droppedRequests (queueStats (recordDroppedRequest pm)) = droppedRequests (queueStats pm) + 1"
    by (simp add: recordDroppedRequest_def)
  have own_limit: "token \<noteq> Some True
      \<and> (performanceMonitor itc = None
          \<or> (\<exists>pm. performanceMonitor itc = Some pm \<and> canAcceptRequest pm))
      \<and> length (requestQueue itc) \<ge> maxQueueSize \<longrightarrow>
        settled (queuePrompt h clock now p token itc prompt) =
          settled itc @ [(p, Rejected (Error ''Queue capacity exceeded''))]
        \<and> requestQueue (queuePrompt h clock now p token itc prompt) = requestQueue itc"
    by (auto simp add: queuePrompt_def)
  have cancelled: "token = Some True \<longrightarrow>
        queuePrompt h clock now p token itc prompt =
          itc\<lparr>settled := settled itc @ [(p, Rejected (Error ''Cancelled''))]\<rparr>"
    by (simp add: queuePrompt_def)
  from monitor_full counted own_limit cancelled show ?thesis
    by (simp add: maxQueueSize_def)
qed

theorem queuePrompt_overflow_witness:
  "int (currentSize (queueStats (example_monitor 100))) \<ge> maxQueueSize_config (example_monitor 100)
   \<and> settled (queuePrompt example_handler example_clock 7 200 None
                example_full_interceptor (example_prompt ''hello''))
       = [(200, Rejected (Error ''Queue capacity exceeded''))]
   \<and> length (requestQueue (queuePrompt example_handler example_clock 7 200 None
                example_full_interceptor (example_prompt ''hello''))) = 100
   \<and> map_option (\<lambda>pm. droppedRequests (queueStats pm))
        (performanceMonitor (queuePrompt example_handler example_clock 7 200 None
                               example_full_interceptor (example_prompt ''hello'')))
       = Some 1
   \<and> settled (queuePrompt example_handler example_clock 7 200 (Some False)
                (example_full_interceptor\<lparr>performanceMonitor := None\<rparr>) (example_prompt ''hello''))
       = [(200, Rejected (Error ''Queue capacity exceeded''))]"
proof -
  have full: "int (currentSize (queueStats (example_monitor 100)))
                \<ge> maxQueueSize_config (example_monitor 100)"
    by (simp add: example_monitor_def)
  have st: "performanceMonitor example_full_interceptor = Some (example_monitor 100)"
    "settled example_full_interceptor = []"
    "length (requestQueue example_full_interceptor) = 100"
    by (simp_all add: example_full_interceptor_def)
  note a = queuePrompt_overflow[where token = None and itc = example_full_interceptor
             and pm = "example_monitor 100" and h = example_handler and clock = example_clock
             and now = 7 and p = 200 and prompt = "example_prompt ''hello''"]
  note b = queuePrompt_overflow[where token = "Some False"
             and itc = "example_full_interceptor\<lparr>performanceMonitor := None\<rparr>"
             and h = example_handler and clock = example_clock
             and now = 7 and p = 200 and prompt = "example_prompt ''hello''"]
  have a': "queuePrompt example_handler example_clock 7 200 None
                example_full_interceptor (example_prompt ''hello'') =
          example_full_interceptor\<lparr>performanceMonitor := Some (recordDroppedRequest (example_monitor 100)),
              settled := settled example_full_interceptor
                           @ [(200, Rejected (Error ''Queue capacity exceeded''))]\<rparr>"
    using a full st(1) by simp
  have b': "settled (queuePrompt example_handler example_clock 7 200 (Some False)
                (example_full_interceptor\<lparr>performanceMonitor := None\<rparr>) (example_prompt ''hello''))
       = [(200, Rejected (Error ''Queue capacity exceeded''))]"
    using b st by simp
  show ?thesis
    using full b' st by (simp add: a' recordDroppedRequest_def example_monitor_def)
qed

lemma process_requests_settled:
  "snd (process_requests h clock q (pm, finished)) =
     finished @ map (\<lambda>r. (promise r,
                          case (case h of None \<Rightarrow> None | Some f \<Rightarrow> f (prompt_q r)) of
                            None \<Rightarrow> Resolved (prompt_q r)
                          | Some e \<Rightarrow> Rejected (as_Error e))) q"
  by (induction q arbitrary: pm finished) (simp_all add: Let_def)

lemma processQueue_settled:
  "\<not> isProcessing itc \<Longrightarrow>
   settled (processQueue h clock itc) =
     settled itc @ map (\<lambda>r. (promise r,
                          case (case h of None \<Rightarrow> None | Some f \<Rightarrow> f (prompt_q r)) of
                            None \<Rightarrow> Resolved (prompt_q r)
                          | Some e \<Rightarrow> Rejected (as_Error e))) (requestQueue itc)"
proof -
  assume idle: "\<not> isProcessing itc"
  obtain pm finished where
    run: "process_requests h clock (requestQueue itc) (performanceMonitor itc, settled itc)
            = (pm, finished)"
    by (cases "process_requests h clock (requestQueue itc) (performanceMonitor itc, settled itc)")
  from process_requests_settled[of h clock "requestQueue itc" "performanceMonitor itc" "settled itc"]
  have "finished = settled itc @ map (\<lambda>r. (promise r,
                          case (case h of None \<Rightarrow> None | Some f \<Rightarrow> f (prompt_q r)) of
                            None \<Rightarrow> Resolved (prompt_q r)
                          | Some e \<Rightarrow> Rejected (as_Error e))) (requestQueue itc)"
    by (simp add: run)
  then show ?thesis
    using idle by (simp add: processQueue_def run)
qed

text \<open>
  C9. The prompt is handed on as it was submitted. \<open>createInterceptedPrompt\<close> stores the
  submitted text as the content; every decision that \<open>makeDecision\<close> and
  \<open>enforceSecurityPolicy\<close> return has as its \<open>originalPrompt\<close> the prompt they were given,
  for the action allow as for the others, and where the rules give allow a decision is
  returned; and the worker of the queue settles the promise of each request it takes
  with the prompt of that request, unless the handler throws, in which case it rejects the
  promise. A submission accepted by an idle interceptor is resolved with the prompt that
  was submitted.
\<close>

theorem prompt_passes_unchanged:
  "content (createInterceptedPrompt newId t0 c src md) = c
   \<and> (makeDecision num cfg a prompt = Inr d \<longrightarrow> originalPrompt d = prompt)
   \<and> (threatLevel a = safe
        \<or> (threatLevel a = suspicious \<and> double (confidence a) < double (warnThreshold cfg)) \<longrightarrow>
        (\<exists>d0. makeDecision num cfg a prompt = Inr d0 \<and> action d0 = allow
           \<and> originalPrompt d0 = prompt))
   \<and> (makeDecision num cfg a prompt = Inr d \<and> action d = allow \<longrightarrow>
        content (originalPrompt d) = content prompt)
   \<and> (enforceSecurityPolicy num sha st1 st2 ui gk a prompt = Inr (d2, gk') \<longrightarrow>
        originalPrompt d2 = prompt)
   \<and> (\<not> isProcessing itc \<longrightarrow>
        settled (processQueue h clock itc) =
          settled itc @ map (\<lambda>r. (promise r,
                          case (case h of None \<Rightarrow> None | Some f \<Rightarrow> f (prompt_q r)) of
                            None \<Rightarrow> Resolved (prompt_q r)
                          | Some e \<Rightarrow> Rejected (as_Error e))) (requestQueue itc))
   \<and> (\<not> isProcessing itc \<and> (h = None \<or> (\<exists>f. h = Some f \<and> (\<forall>r \<in> set (requestQueue itc). f (prompt_q r) = None))) \<longrightarrow>
        settled (processQueue h clock itc) =
          settled itc @ map (\<lambda>r. (promise r, Resolved (prompt_q r))) (requestQueue itc))
   \<and> (\<not> isProcessing itc \<and> requestQueue itc = [] \<and> token \<noteq> Some True
        \<and> (performanceMonitor itc = None
            \<or> (\<exists>pm. performanceMonitor itc = Some pm \<and> canAcceptRequest pm))
        \<and> (h = None \<or> (\<exists>f. h = Some f \<and> f prompt = None)) \<longrightarrow>
        settled (queuePrompt h clock now p token itc prompt) = settled itc @ [(p, Resolved prompt)])"
proof -
  have created: "content (createInterceptedPrompt newId t0 c src md) = c"
    by (simp add: createInterceptedPrompt_def)
  have made: "originalPrompt d' = prompt" if "makeDecision num cfg' a prompt = Inr d'" for d' cfg'
    using that by (auto simp add: makeDecision_def split: if_splits option.splits)
  have decided: "makeDecision num cfg a prompt = Inr d \<longrightarrow> originalPrompt d = prompt"
    using made by blast
  have allowed: "threatLevel a = safe
        \<or> (threatLevel a = suspicious \<and> double (confidence a) < double (warnThreshold cfg)) \<longrightarrow>
        (\<exists>d0. makeDecision num cfg a prompt = Inr d0 \<and> action d0 = allow
           \<and> originalPrompt d0 = prompt)"
    using makeDecision_allow[of a cfg num prompt] by auto
  have same: "makeDecision num cfg a prompt = Inr d \<and> action d = allow \<longrightarrow>
        content (originalPrompt d) = content prompt"
    using made by auto
  have enforced: "enforceSecurityPolicy num sha st1 st2 ui gk a prompt = Inr (d2, gk') \<longrightarrow>
        originalPrompt d2 = prompt"
    using made[of "config gk" d2]
    by (auto simp add: enforceSecurityPolicy_def Let_def split: sum.splits)
  have worker: "\<not> isProcessing itc \<longrightarrow>
        settled (processQueue h clock itc) =
          settled itc @ map (\<lambda>r. (promise r,
                          case (case h of None \<Rightarrow> None | Some f \<Rightarrow> f (prompt_q r)) of
                            None \<Rightarrow> Resolved (prompt_q r)
                          | Some e \<Rightarrow> Rejected (as_Error e))) (requestQueue itc)"
    by (simp add: processQueue_settled)
  have resolved: "\<not> isProcessing itc \<and> (h = None \<or> (\<exists>f. h = Some f \<and> (\<forall>r \<in> set (requestQueue itc). f (prompt_q r) = None))) \<longrightarrow>
        settled (processQueue h clock itc) =
          settled itc @ map (\<lambda>r. (promise r, Resolved (prompt_q r))) (requestQueue itc)"
    by (auto simp add: processQueue_settled)
  have submitted: "\<not> isProcessing itc \<and> requestQueue itc = [] \<and> token \<noteq> Some True
        \<and> (performanceMonitor itc = None
            \<or> (\<exists>pm. performanceMonitor itc = Some pm \<and> canAcceptRequest pm))
        \<and> (h = None \<or> (\<exists>f. h = Some f \<and> f prompt = None)) \<longrightarrow>
        settled (queuePrompt h clock now p token itc prompt) = settled itc @ [(p, Resolved prompt)]"
    by (auto simp add: queuePrompt_def maxQueueSize_def processQueue_settled Let_def)
  show ?thesis
    apply (intro conjI)
    using created decided allowed same enforced worker resolved submitted by blast+
qed

theorem prompt_passes_unchanged_witness:
  "isProcessing example_idle_interceptor = False
   \<and> map_sum id (\<lambda>d. (action d, content (originalPrompt d)))
        (makeDecision example_num (config (example_gatekeeper True)) (example_remote safe 0.9)
           (example_prompt ''hello'')) = Inr (allow, ''hello'')
   \<and> settled (queuePrompt example_handler example_clock 7 200 None example_idle_interceptor
                (example_prompt ''hello'')) = [(200, Resolved (example_prompt ''hello''))]
   \<and> settled (processQueue example_handler example_clock
                (example_full_interceptor\<lparr>isProcessing := False\<rparr>)) =
       map (\<lambda>n. (n, Resolved (example_prompt ''hello''))) [0..<100]"
proof -
  note w = prompt_passes_unchanged[where num = example_num
      and cfg = "config (example_gatekeeper True)"
      and a = "example_remote safe 0.9" and prompt = "example_prompt ''hello''"
      and h = example_handler and clock = example_clock and now = 7 and p = 200
      and token = None]
  have idle: "\<not> isProcessing example_idle_interceptor" "requestQueue example_idle_interceptor = []"
    "settled example_idle_interceptor = []"
    "performanceMonitor example_idle_interceptor = Some (example_monitor 0)"
    "canAcceptRequest (example_monitor 0)"
    by (simp_all add: example_idle_interceptor_def canAcceptRequest_def example_monitor_def)
  have hd: "example_handler = Some (\<lambda>p. None)" by (simp add: example_handler_def)
  have al: "threatLevel (example_remote safe 0.9) = safe"
    by (simp add: example_remote_def)
  note w3 = w[where itc = example_idle_interceptor,
                THEN conjunct2, THEN conjunct2, THEN conjunct1, THEN mp]
  note w6 = w[where itc = "example_full_interceptor\<lparr>isProcessing := False\<rparr>",
                THEN conjunct2, THEN conjunct2, THEN conjunct2, THEN conjunct2, THEN conjunct2,
                THEN conjunct2, THEN conjunct1, THEN mp]
  note w7 = w[where itc = example_idle_interceptor,
                THEN conjunct2, THEN conjunct2, THEN conjunct2, THEN conjunct2, THEN conjunct2,
                THEN conjunct2, THEN conjunct2, THEN mp]
  have c1: "map_sum id (\<lambda>d. (action d, content (originalPrompt d)))
        (makeDecision example_num (config (example_gatekeeper True)) (example_remote safe 0.9)
           (example_prompt ''hello'')) = Inr (allow, ''hello'')"
  proof -
    from w3 al obtain d0 where
      "makeDecision example_num (config (example_gatekeeper True)) (example_remote safe 0.9)
         (example_prompt ''hello'') = Inr d0"
      "action d0 = allow" "originalPrompt d0 = example_prompt ''hello''"
      by blast
    then show ?thesis by (simp add: example_prompt_def)
  qed
  have hyp7: "\<not> isProcessing example_idle_interceptor \<and> requestQueue example_idle_interceptor = []
        \<and> None \<noteq> Some True
        \<and> (performanceMonitor example_idle_interceptor = None
            \<or> (\<exists>pm. performanceMonitor example_idle_interceptor = Some pm \<and> canAcceptRequest pm))
        \<and> (example_handler = None
            \<or> (\<exists>f. example_handler = Some f \<and> f (example_prompt ''hello'') = None))"
    using idle by (simp add: hd)
  have c2: "settled (queuePrompt example_handler example_clock 7 200 None example_idle_interceptor
                (example_prompt ''hello'')) = [(200, Resolved (example_prompt ''hello''))]"
    using w7[OF hyp7] idle(3) by simp
  have hyp6: "\<not> isProcessing (example_full_interceptor\<lparr>isProcessing := False\<rparr>)
        \<and> (example_handler = None
            \<or> (\<exists>f. example_handler = Some f
                 \<and> (\<forall>r \<in> set (requestQueue (example_full_interceptor\<lparr>isProcessing := False\<rparr>)).
                       f (prompt_q r) = None)))"
    by (simp add: hd)
  have c3: "settled (processQueue example_handler example_clock
                (example_full_interceptor\<lparr>isProcessing := False\<rparr>)) =
       map (\<lambda>n. (n, Resolved (example_prompt ''hello''))) [0..<100]"
    using w6[OF hyp6]
    by (simp add: example_full_interceptor_def example_request_def comp_def)
  from idle(1) c1 c2 c3 show ?thesis by simp
qed

end
